theory Spec2Isabelle
  imports Main "HOL-Library.Word"
begin

unbundle bit_operations_syntax

section \<open>The block store of BTrDB (internal/bstore/blockstore.go)\<close>

text \<open>
  The Go package keeps its state in a \<open>BlockStore\<close> object shared by all callers and in
  one \<open>Generation\<close> object per write pass. Both are passed explicitly here: every
  operation takes the state it reads and returns the state it leaves behind, also when it
  panics. \<open>uint64\<close> is \<open>64 word\<close>, so \<open>+\<close> wraps as in Go.
\<close>

subsection \<open>Basic types\<close>

type_synonym u64 = "64 word"
type_synonym byte = "8 word"

text \<open>\<open>uuid.UUID\<close> is a byte slice; a well-formed one has 16 bytes.\<close>

type_synonym UUID = "byte list"

text \<open>\<open>const LatestGeneration = uint64(^(uint64(0)))\<close>\<close>

definition LatestGeneration :: u64 where
  "LatestGeneration = NOT 0"

text \<open>
  \<open>UUIDToMapKey\<close>: \<open>copy\<close> moves at most 16 bytes into a zeroed array of 16 bytes.
\<close>

definition UUIDToMapKey :: "UUID \<Rightarrow> byte list" where
  "UUIDToMapKey uid = take 16 uid @ replicate (16 - length uid) 0"

text \<open>
  \<open>id.String()\<close> of the go-uuid library (not part of this repository): the empty string
  unless the slice has 16 bytes, otherwise lower-case hexadecimal in groups of
  8-4-4-4-12 digits.
\<close>

definition hex_digit :: "nat \<Rightarrow> char" where
  "hex_digit n = ''0123456789abcdef'' ! (n mod 16)"

definition hex_byte :: "byte \<Rightarrow> string" where
  "hex_byte b = [hex_digit (unat b div 16), hex_digit (unat b mod 16)]"

definition hex :: "byte list \<Rightarrow> string" where
  "hex bs = concat (map hex_byte bs)"

definition uuid_String :: "UUID \<Rightarrow> string" where
  "uuid_String uid =
     (if length uid \<noteq> 16 then ''''
      else hex (take 4 uid) @ ''-'' @ hex (take 2 (drop 4 uid)) @ ''-'' @
           hex (take 2 (drop 6 uid)) @ ''-'' @ hex (take 2 (drop 8 uid)) @ ''-'' @
           hex (drop 10 uid))"

text \<open>
  How a call ends: it returns a value, it panics (\<open>log.Panic\<close>, a nil dereference, or
  the runtime's fatal error), or it never returns because it waits for a mutex that
  nobody releases.
\<close>

datatype 'a outcome = Returned 'a | Panicked string | Blocked

subsection \<open>Superblocks and the metadata store\<close>

text \<open>\<open>type fake_sblock struct\<close>: the document kept in the collection "superblocks".\<close>

record fake_sblock =
  Uuid :: string
  Gen :: u64
  Root :: u64
  Unlinked :: bool

text \<open>
  \<open>Superblock\<close>: the type is declared outside blockstore.go; the fields are those
  that \<open>LoadSuperblock\<close> and \<open>ObtainGeneration\<close> set.
\<close>

record Superblock =
  uuid :: UUID
  gen :: u64
  root :: u64
  unlinked :: bool

text \<open>
  The MongoDB collection behind \<open>bs.db.C("superblocks")\<close> is an external service,
  taken by the contract that section 6 of the spec gives for it. It is modelled as the
  list of its documents in natural order, with a flag \<open>fault\<close> standing for an
  unreachable server: while it is set every request fails with an error other than
  \<open>mgo.ErrNotFound\<close>.
\<close>

record database =
  superblocks :: "fake_sblock list"
  fault :: bool

datatype mgo_error = ErrNotFound | ErrIO

text \<open>\<open>Sort("-gen").One\<close> on a result list: the first document of greatest \<open>gen\<close>.\<close>

fun sort_gen_desc_One :: "fake_sblock list \<Rightarrow> fake_sblock option" where
  "sort_gen_desc_One [] = None"
| "sort_gen_desc_One (d # ds) =
     (case sort_gen_desc_One ds of
        None \<Rightarrow> Some d
      | Some e \<Rightarrow> if Gen d < Gen e then Some e else Some d)"

text \<open>\<open>Find(bson.M{"uuid": s}).Sort("-gen").One(&rs)\<close>\<close>

definition find_latest :: "database \<Rightarrow> string \<Rightarrow> mgo_error + fake_sblock" where
  "find_latest db s =
     (if fault db then Inl ErrIO
      else case sort_gen_desc_One (filter (\<lambda>d. Uuid d = s) (superblocks db)) of
             None \<Rightarrow> Inl ErrNotFound
           | Some d \<Rightarrow> Inr d)"

text \<open>\<open>Find(bson.M{"uuid": s, "gen": g}).One(&sb)\<close>\<close>

definition find_exact :: "database \<Rightarrow> string \<Rightarrow> u64 \<Rightarrow> mgo_error + fake_sblock" where
  "find_exact db s g =
     (if fault db then Inl ErrIO
      else case find (\<lambda>d. Uuid d = s \<and> Gen d = g) (superblocks db) of
             None \<Rightarrow> Inl ErrNotFound
           | Some d \<Rightarrow> Inr d)"

text \<open>
  \<open>Find(bson.M{"uuid": s, "gen": {"$gte": sgen, "$lt": egen}, "unlinked": false}).Iter()\<close>:
  the documents the cursor will deliver. A failed query delivers none, and
  \<open>UnlinkGenerations\<close> never asks the iterator for its error.
\<close>

definition find_linked_range :: "database \<Rightarrow> string \<Rightarrow> u64 \<Rightarrow> u64 \<Rightarrow> fake_sblock list" where
  "find_linked_range db s sgen egen =
     (if fault db then []
      else filter (\<lambda>d. Uuid d = s \<and> sgen \<le> Gen d \<and> Gen d < egen \<and> \<not> Unlinked d)
             (superblocks db))"

text \<open>\<open>Insert(fsb)\<close> appends a document.\<close>

definition Insert :: "database \<Rightarrow> fake_sblock \<Rightarrow> mgo_error + database" where
  "Insert db d =
     (if fault db then Inl ErrIO
      else Inr (db\<lparr>superblocks := superblocks db @ [d]\<rparr>))"

text \<open>
  \<open>Upsert(bson.M{"uuid": s, "gen": g}, rs)\<close> replaces the first document that matches
  the selector by \<open>rs\<close>, and inserts \<open>rs\<close> when none matches.
\<close>

fun replace_first :: "('a \<Rightarrow> bool) \<Rightarrow> 'a \<Rightarrow> 'a list \<Rightarrow> 'a list" where
  "replace_first P y [] = [y]"
| "replace_first P y (x # xs) = (if P x then y # xs else x # replace_first P y xs)"

definition Upsert :: "database \<Rightarrow> string \<Rightarrow> u64 \<Rightarrow> fake_sblock \<Rightarrow> mgo_error + database" where
  "Upsert db s g rs =
     (if fault db then Inl ErrIO
      else Inr (db\<lparr>superblocks :=
                  replace_first (\<lambda>d. Uuid d = s \<and> Gen d = g) rs (superblocks db)\<rparr>))"

text \<open>
  \<open>LoadSuperblock\<close>: the sentinel selects the latest-version query, every other value
  the exact query; \<open>ErrNotFound\<close> gives nil, any other error panics.
\<close>

definition LoadSuperblock :: "database \<Rightarrow> UUID \<Rightarrow> u64 \<Rightarrow> Superblock option outcome" where
  "LoadSuperblock db uid generation =
     (case (if generation = LatestGeneration
            then find_latest db (uuid_String uid)
            else find_exact db (uuid_String uid) generation) of
        Inl ErrNotFound \<Rightarrow> Returned None
      | Inl ErrIO \<Rightarrow> Panicked ''mgo error''
      | Inr sb \<Rightarrow> Returned (Some \<lparr>uuid = uid, gen = Gen sb, root = Root sb,
                                  unlinked = Unlinked sb\<rparr>))"

text \<open>
  \<open>UnlinkGenerations\<close>: the loop over the iterator, then \<open>return nil\<close>. Each pass sets
  \<open>rs.Unlinked\<close> and upserts \<open>rs\<close> under the selector made of the stream and \<open>rs.Gen\<close>.
\<close>

fun unlink_loop :: "database \<Rightarrow> string \<Rightarrow> fake_sblock list \<Rightarrow> unit outcome \<times> database" where
  "unlink_loop db s [] = (Returned (), db)"
| "unlink_loop db s (rs # iter) =
     (let rs' = rs\<lparr>Unlinked := True\<rparr> in
      case Upsert db s (Gen rs') rs' of
        Inl err \<Rightarrow> (Panicked ''mgo error'', db)
      | Inr db' \<Rightarrow> unlink_loop db' s iter)"

definition UnlinkGenerations :: "database \<Rightarrow> UUID \<Rightarrow> u64 \<Rightarrow> u64 \<Rightarrow> unit outcome \<times> database" where
  "UnlinkGenerations db uid sgen egen =
     unlink_loop db (uuid_String uid) (find_linked_range db (uuid_String uid) sgen egen)"

subsection \<open>Blocks, the storage provider and the parts declared elsewhere\<close>

type_synonym i64 = "64 word"

text \<open>
  \<open>Coreblock\<close> and \<open>Vectorblock\<close> are declared outside blockstore.go. This file
  uses four fields of each; everything else of a block is its payload.
\<close>

record Coreblock =
  cIdentifier :: u64
  cGeneration :: u64
  cPointWidth :: byte
  cStartTime :: i64
  cPayload :: "byte list"

record Vectorblock =
  vIdentifier :: u64
  vGeneration :: u64
  vPointWidth :: byte
  vStartTime :: i64
  vPayload :: "byte list"

text \<open>The interface \<open>Datablock\<close> has these two implementations.\<close>

datatype Datablock = DCore Coreblock | DVector Vectorblock

text \<open>\<open>&Coreblock{}\<close> and \<open>&Vectorblock{}\<close>: every field at its zero value.\<close>

definition zero_Coreblock :: Coreblock where
  "zero_Coreblock = \<lparr>cIdentifier = 0, cGeneration = 0, cPointWidth = 0, cStartTime = 0,
                      cPayload = []\<rparr>"

definition zero_Vectorblock :: Vectorblock where
  "zero_Vectorblock = \<lparr>vIdentifier = 0, vGeneration = 0, vPointWidth = 0, vStartTime = 0,
                        vPayload = []\<rparr>"

text \<open>The result of \<open>DatablockGetBufferType\<close>; \<open>Bad\<close> is any value other than the two.\<close>

datatype BlockType = Core | Vector | Bad

text \<open>
  \<open>bprovider.StorageProvider\<close>: what \<open>Read(addr, buf)\<close> returns for each address.
\<close>

type_synonym StorageProvider = "u64 \<Rightarrow> byte list"

text \<open>
  The constant and the functions that blockstore.go uses and that are declared elsewhere,
  with nothing known about them but their types: they are parameters of the model.
  \<open>LinkAndStore\<close> returns the address map and leaves the provider in a new state;
  \<open>Deserialize\<close> fills the block it is called on.
\<close>

record externals =
  RELOCATION_BASE :: u64
  LinkAndStore :: "StorageProvider \<Rightarrow> Vectorblock list \<Rightarrow> Coreblock list
                     \<Rightarrow> (u64 \<rightharpoonup> u64) \<times> StorageProvider"
  DatablockGetBufferType :: "byte list \<Rightarrow> BlockType"
  Coreblock_Deserialize :: "byte list \<Rightarrow> Coreblock \<Rightarrow> Coreblock"
  Vectorblock_Deserialize :: "byte list \<Rightarrow> Vectorblock \<Rightarrow> Vectorblock"

subsection \<open>The address allocator\<close>

text \<open>
  The goroutine started by \<open>NewBlockStore\<close> owns the variable \<open>relocation_addr\<close> and
  sends into the channel \<open>bs.alloc\<close>, whose buffer holds 256 values in order of sending.
\<close>

record allocator =
  chan :: "u64 list"
  relocation_addr :: u64

definition alloc_init :: "u64 \<Rightarrow> allocator" where
  "alloc_init base = \<lparr>chan = [], relocation_addr = base\<rparr>"

text \<open>
  \<open>relocation_addr += 1; if relocation_addr < RELOCATION_BASE { relocation_addr = RELOCATION_BASE }\<close>
\<close>

definition next_relocation_addr :: "u64 \<Rightarrow> u64 \<Rightarrow> u64" where
  "next_relocation_addr base a = (let a' = a + 1 in if a' < base then base else a')"

text \<open>
  One pass of the goroutine's loop. The send waits while the buffer is full (\<open>None\<close>).
\<close>

definition producer_step :: "u64 \<Rightarrow> allocator \<Rightarrow> allocator option" where
  "producer_step base al =
     (if length (chan al) < 256
      then Some \<lparr>chan = chan al @ [relocation_addr al],
                 relocation_addr = next_relocation_addr base (relocation_addr al)\<rparr>
      else None)"

text \<open>\<open><-bs.alloc\<close> when the buffer holds a value; it waits while it is empty (\<open>None\<close>).\<close>

definition receive :: "allocator \<Rightarrow> (u64 \<times> allocator) option" where
  "receive al = (case chan al of [] \<Rightarrow> None | x # xs \<Rightarrow> Some (x, al\<lparr>chan := xs\<rparr>))"

text \<open>
  \<open>allocateBlock\<close>, seen from the caller: it takes the oldest buffered value; with an
  empty buffer it waits for the goroutine's next send, which the goroutine can always do
  then, and receives that value.
\<close>

definition allocateBlock :: "u64 \<Rightarrow> allocator \<Rightarrow> u64 \<times> allocator" where
  "allocateBlock base al =
     (case receive al of
        Some r \<Rightarrow> r
      | None \<Rightarrow> (relocation_addr al,
                 al\<lparr>relocation_addr := next_relocation_addr base (relocation_addr al)\<rparr>))"

text \<open>
  Any interleaving of the goroutine with the receivers is a list of events; an event whose
  party has to wait changes nothing. The second component collects the addresses
  delivered, oldest first.
\<close>

datatype alloc_event = Produce | Consume

fun alloc_event_step :: "u64 \<Rightarrow> alloc_event \<Rightarrow> allocator \<times> u64 list \<Rightarrow> allocator \<times> u64 list" where
  "alloc_event_step base Produce (al, out) =
     (case producer_step base al of None \<Rightarrow> (al, out) | Some al' \<Rightarrow> (al', out))"
| "alloc_event_step base Consume (al, out) =
     (case receive al of None \<Rightarrow> (al, out) | Some (x, al') \<Rightarrow> (al', out @ [x]))"

fun alloc_run :: "u64 \<Rightarrow> alloc_event list \<Rightarrow> allocator \<times> u64 list \<Rightarrow> allocator \<times> u64 list" where
  "alloc_run base [] st = st"
| "alloc_run base (e # es) st = alloc_run base es (alloc_event_step base e st)"

text \<open>\<open>n\<close> calls of \<open>allocateBlock\<close> in a row, with the addresses they return.\<close>

fun allocate_n :: "u64 \<Rightarrow> nat \<Rightarrow> allocator \<Rightarrow> u64 list \<times> allocator" where
  "allocate_n base 0 al = ([], al)"
| "allocate_n base (Suc n) al =
     (let (x, al') = allocateBlock base al;
          (xs, al'') = allocate_n base n al'
      in (x # xs, al''))"

subsection \<open>The block cache\<close>

text \<open>
  Modelled from the spec: \<open>initCache\<close>, \<open>cacheGet\<close> and \<open>cachePut\<close> are not in
  blockstore.go. Section 4.4: a cache keyed by address of capacity \<open>cachemax\<close> with
  strict least-recently-used eviction; \<open>get\<close> returns the block and moves its entry to
  the most recent position, or reports a miss; \<open>put\<close> inserts at the most recent
  position and evicts from the least recent end when the capacity is exceeded. The
  recency list is kept most recent first.
\<close>

type_synonym cache = "(u64 \<times> Datablock) list"

definition cacheGet :: "cache \<Rightarrow> u64 \<Rightarrow> Datablock option \<times> cache" where
  "cacheGet c addr =
     (case map_of c addr of
        None \<Rightarrow> (None, c)
      | Some b \<Rightarrow> (Some b, (addr, b) # filter (\<lambda>e. fst e \<noteq> addr) c))"

definition cachePut :: "u64 \<Rightarrow> cache \<Rightarrow> u64 \<Rightarrow> Datablock \<Rightarrow> cache" where
  "cachePut cmax c addr b = take (unat cmax) ((addr, b) # filter (\<lambda>e. fst e \<noteq> addr) c)"

subsection \<open>The block store and its write locks\<close>

text \<open>
  \<open>_wlocks\<close> maps a key to a pointer to a \<open>sync.Mutex\<close>. Two pointers can differ while
  standing for the same stream, so the mutexes live in a heap: \<open>mutex_locked\<close> tells
  for each address whether the mutex there is locked, and \<open>mutex_count\<close> is the next
  address \<open>new(sync.Mutex)\<close> hands out.
\<close>

record BlockStore =
  db :: database
  wlocks :: "byte list \<rightharpoonup> nat"
  mutex_locked :: "nat \<Rightarrow> bool"
  mutex_count :: nat
  cachemap :: cache
  cachemax :: u64
  store :: StorageProvider
  alloc :: allocator

text \<open>\<open>mtx := new(sync.Mutex); mtx.Lock()\<close>: a new mutex cannot be held by anybody.\<close>

definition new_locked_Mutex :: "BlockStore \<Rightarrow> nat \<times> BlockStore" where
  "new_locked_Mutex bs =
     (mutex_count bs,
      bs\<lparr>mutex_locked := (mutex_locked bs)(mutex_count bs := True),
         mutex_count := Suc (mutex_count bs)\<rparr>)"

text \<open>\<open>mtx.Lock()\<close>: \<open>None\<close> while the mutex is held, when the caller has to wait.\<close>

definition Mutex_Lock :: "BlockStore \<Rightarrow> nat \<Rightarrow> BlockStore option" where
  "Mutex_Lock bs mtx =
     (if mutex_locked bs mtx then None
      else Some (bs\<lparr>mutex_locked := (mutex_locked bs)(mtx := True)\<rparr>))"

text \<open>
  \<open>mtx.Unlock()\<close>: any goroutine may unlock a locked mutex; unlocking one that is not
  locked is a fatal error of the runtime (\<open>None\<close>).
\<close>

definition Mutex_Unlock :: "BlockStore \<Rightarrow> nat \<Rightarrow> BlockStore option" where
  "Mutex_Unlock bs mtx =
     (if mutex_locked bs mtx
      then Some (bs\<lparr>mutex_locked := (mutex_locked bs)(mtx := False)\<rparr>)
      else None)"

text \<open>
  \<open>NewBlockStore\<close>: \<open>server\<close> is what \<open>mgo.Dial\<close> reaches (\<open>None\<close> when it fails),
  \<open>mkdir_ok\<close> whether \<open>os.MkdirAll\<close> succeeds, \<open>files\<close> the provider that
  \<open>Initialize\<close> opens. Modelled from the spec: \<open>initCache\<close> is not in blockstore.go;
  it leaves an empty cache of the capacity given.
\<close>

definition NewBlockStore ::
  "externals \<Rightarrow> database option \<Rightarrow> u64 \<Rightarrow> bool \<Rightarrow> StorageProvider \<Rightarrow> (string + BlockStore) outcome" where
  "NewBlockStore ext server cachesize mkdir_ok files =
     (case server of
        None \<Rightarrow> Returned (Inl ''no reachable servers'')
      | Some d \<Rightarrow>
          if \<not> mkdir_ok then Panicked ''mkdir''
          else Returned (Inr \<lparr>db = d, wlocks = Map.empty, mutex_locked = (\<lambda>m. False),
                              mutex_count = 0, cachemap = [], cachemax = cachesize,
                              store = files, alloc = alloc_init (RELOCATION_BASE ext)\<rparr>))"

subsection \<open>Generations\<close>

text \<open>
  \<open>type Generation struct\<close>. The field \<open>blockstore\<close> is the pointer to the shared
  store; the operations take the store as an argument instead.
\<close>

record Generation =
  Cur_SB :: Superblock
  New_SB :: Superblock
  cblocks :: "Coreblock list"
  vblocks :: "Vectorblock list"
  unref_vaddrs :: "u64 list"
  flushed :: bool

definition UpdateRootAddr :: "Generation \<Rightarrow> u64 \<Rightarrow> Generation" where
  "UpdateRootAddr g addr = g\<lparr>New_SB := (New_SB g)\<lparr>root := addr\<rparr>\<rparr>"

definition Uuid_of :: "Generation \<Rightarrow> UUID" where
  "Uuid_of g = uuid (Cur_SB g)"

definition Number :: "Generation \<Rightarrow> u64" where
  "Number g = gen (New_SB g)"

definition UnreferenceBlock :: "Generation \<Rightarrow> u64 \<Rightarrow> Generation" where
  "UnreferenceBlock g vaddr = g\<lparr>unref_vaddrs := unref_vaddrs g @ [vaddr]\<rparr>"

text \<open>
  Modelled from the spec: \<open>NewSuperblock\<close> is not in blockstore.go. Section 4.2: when
  the stream has no record, ObtainGeneration "synthesizes a fresh Superblock at version 0
  with no root"; the root is an address, and no root is the address 0.
\<close>

definition NewSuperblock :: "UUID \<Rightarrow> Superblock" where
  "NewSuperblock uid = \<lparr>uuid = uid, gen = 0, root = 0, unlinked = False\<rparr>"

text \<open>
  Modelled from the spec: \<open>Clone\<close> is not in blockstore.go. Section 3: "a new
  Superblock is derived by cloning the latest one and incrementing version"; the clone is
  a new object with the fields of the old one.
\<close>

definition Clone :: "Superblock \<Rightarrow> Superblock" where
  "Clone sb = \<lparr>uuid = uuid sb, gen = gen sb, root = root sb, unlinked = unlinked sb\<rparr>"

text \<open>
  \<open>ObtainGeneration\<close> from \<open>gen := &Generation{...}\<close> to \<open>return gen\<close>: the part
  that runs once the stream's mutex is held. It reads the metadata store only.
\<close>

definition ObtainGeneration_body :: "BlockStore \<Rightarrow> UUID \<Rightarrow> Generation outcome" where
  "ObtainGeneration_body bs uid =
     (case (case find_latest (db bs) (uuid_String uid) of
              Inl ErrNotFound \<Rightarrow> Returned (NewSuperblock uid)
            | Inl ErrIO \<Rightarrow> Panicked ''mgo error''
            | Inr rs \<Rightarrow> Returned \<lparr>uuid = uid, gen = Gen rs, root = Root rs,
                                    unlinked = False\<rparr>) of
        Returned cur \<Rightarrow>
          (let new = Clone cur;
               new = new\<lparr>gen := gen cur + 1\<rparr>
           in Returned \<lparr>Cur_SB = cur, New_SB = new, cblocks = [], vblocks = [],
                        unref_vaddrs = [], flushed = False\<rparr>)
      | Panicked msg \<Rightarrow> Panicked msg
      | Blocked \<Rightarrow> Blocked)"

text \<open>
  \<open>ObtainGeneration\<close> run without interference from other goroutines: the lookup in
  \<open>_wlocks\<close>, then either a new locked mutex stored under the key or \<open>Lock\<close> on the
  mutex found, then the body. A panic in the body leaves the mutex locked.
\<close>

definition ObtainGeneration :: "BlockStore \<Rightarrow> UUID \<Rightarrow> Generation outcome \<times> BlockStore" where
  "ObtainGeneration bs uid =
     (let mk = UUIDToMapKey uid in
      case (case wlocks bs mk of
              None \<Rightarrow>
                (let (mtx, bs1) = new_locked_Mutex bs
                 in Some (bs1\<lparr>wlocks := (wlocks bs1)(mk \<mapsto> mtx)\<rparr>))
            | Some mtx \<Rightarrow> Mutex_Lock bs mtx) of
        None \<Rightarrow> (Blocked, bs)
      | Some bs2 \<Rightarrow> (ObtainGeneration_body bs2 uid, bs2))"

text \<open>
  \<open>Commit\<close> returns \<open>(nil, error)\<close> as \<open>Inl\<close> of the error's text and
  \<open>(address_map, nil)\<close> as \<open>Inr\<close>. The store and the generation are returned as the
  call leaves them, also when it panics.
\<close>

definition Commit ::
  "externals \<Rightarrow> BlockStore \<Rightarrow> Generation
     \<Rightarrow> (string + (u64 \<rightharpoonup> u64)) outcome \<times> BlockStore \<times> Generation" where
  "Commit ext bs g =
     (if flushed g then (Returned (Inl ''Already Flushed''), bs, g)
      else
        let (address_map, st) = LinkAndStore ext (store bs) (vblocks g) (cblocks g);
            bs1 = bs\<lparr>store := st\<rparr>;
            g1 = g\<lparr>vblocks := [], cblocks := []\<rparr>
        in case address_map (root (New_SB g1)) of
             None \<Rightarrow> (Panicked ''Could not obtain root address'', bs1, g1)
           | Some rootaddr \<Rightarrow>
               (let g2 = g1\<lparr>New_SB := (New_SB g1)\<lparr>root := rootaddr\<rparr>\<rparr>;
                    fsb = \<lparr>Uuid = uuid_String (uuid (New_SB g2)), Gen = gen (New_SB g2),
                           Root = root (New_SB g2), Unlinked = False\<rparr>
                in case Insert (db bs1) fsb of
                     Inl err \<Rightarrow> (Panicked ''mgo error'', bs1, g2)
                   | Inr db' \<Rightarrow>
                       (let bs2 = bs1\<lparr>db := db'\<rparr>;
                            g3 = g2\<lparr>flushed := True\<rparr>
                        in case wlocks bs2 (UUIDToMapKey (Uuid_of g3)) of
                             None \<Rightarrow> (Panicked ''nil pointer dereference'', bs2, g3)
                           | Some mtx \<Rightarrow>
                               (case Mutex_Unlock bs2 mtx of
                                  None \<Rightarrow> (Panicked ''sync: unlock of unlocked mutex'', bs2, g3)
                                | Some bs3 \<Rightarrow> (Returned (Inr address_map), bs3, g3)))))"

definition AllocateCoreblock ::
  "externals \<Rightarrow> BlockStore \<Rightarrow> Generation \<Rightarrow> Coreblock \<times> BlockStore \<times> Generation" where
  "AllocateCoreblock ext bs g =
     (let (a, al) = allocateBlock (RELOCATION_BASE ext) (alloc bs);
          cblock = zero_Coreblock\<lparr>cIdentifier := a, cGeneration := Number g\<rparr>
      in (cblock, bs\<lparr>alloc := al\<rparr>, g\<lparr>cblocks := cblocks g @ [cblock]\<rparr>))"

definition AllocateVectorblock ::
  "externals \<Rightarrow> BlockStore \<Rightarrow> Generation \<Rightarrow> Vectorblock \<times> BlockStore \<times> Generation" where
  "AllocateVectorblock ext bs g =
     (let (a, al) = allocateBlock (RELOCATION_BASE ext) (alloc bs);
          vblock = zero_Vectorblock\<lparr>vIdentifier := a, vGeneration := Number g\<rparr>
      in (vblock, bs\<lparr>alloc := al\<rparr>, g\<lparr>vblocks := vblocks g @ [vblock]\<rparr>))"

subsection \<open>The typed read path\<close>

definition ReadDatablock ::
  "externals \<Rightarrow> BlockStore \<Rightarrow> u64 \<Rightarrow> u64 \<Rightarrow> byte \<Rightarrow> i64 \<Rightarrow> Datablock outcome \<times> BlockStore" where
  "ReadDatablock ext bs addr impl_Generation impl_Pointwidth impl_StartTime =
     (case cacheGet (cachemap bs) addr of
        (Some d, c) \<Rightarrow> (Returned d, bs\<lparr>cachemap := c\<rparr>)
      | (None, c) \<Rightarrow>
          (let bs1 = bs\<lparr>cachemap := c\<rparr>;
               trimbuf = store bs1 addr
           in case DatablockGetBufferType ext trimbuf of
                Core \<Rightarrow>
                  (let rv = Coreblock_Deserialize ext trimbuf zero_Coreblock;
                       rv = rv\<lparr>cIdentifier := addr, cGeneration := impl_Generation,
                               cPointWidth := impl_Pointwidth, cStartTime := impl_StartTime\<rparr>
                   in (Returned (DCore rv),
                       bs1\<lparr>cachemap := cachePut (cachemax bs1) (cachemap bs1) addr (DCore rv)\<rparr>))
              | Vector \<Rightarrow>
                  (let rv = Vectorblock_Deserialize ext trimbuf zero_Vectorblock;
                       rv = rv\<lparr>vIdentifier := addr, vGeneration := impl_Generation,
                               vPointWidth := impl_Pointwidth, vStartTime := impl_StartTime\<rparr>
                   in (Returned (DVector rv),
                       bs1\<lparr>cachemap := cachePut (cachemax bs1) (cachemap bs1) addr (DVector rv)\<rparr>))
              | Bad \<Rightarrow> (Panicked ''Strange datablock type'', bs1)))"

text \<open>The implicit fields of a block, whichever kind it is.\<close>

fun Generation_of :: "Datablock \<Rightarrow> u64" where
  "Generation_of (DCore b) = cGeneration b"
| "Generation_of (DVector b) = vGeneration b"

fun PointWidth_of :: "Datablock \<Rightarrow> byte" where
  "PointWidth_of (DCore b) = cPointWidth b"
| "PointWidth_of (DVector b) = vPointWidth b"

fun StartTime_of :: "Datablock \<Rightarrow> i64" where
  "StartTime_of (DCore b) = cStartTime b"
| "StartTime_of (DVector b) = vStartTime b"

fun Identifier_of :: "Datablock \<Rightarrow> u64" where
  "Identifier_of (DCore b) = cIdentifier b"
| "Identifier_of (DVector b) = vIdentifier b"

subsection \<open>Goroutines racing for a stream's write lock\<close>

text \<open>
  Several goroutines share one store. Each calls \<open>ObtainGeneration\<close> once and then
  \<open>Commit\<close> on the generation it got. A goroutine's position is one of: about to call
  \<open>ObtainGeneration(id)\<close>; past the lookup under \<open>glock.RLock\<close> with its result;
  past \<open>new(sync.Mutex)\<close> and \<open>Lock\<close> on it; past the lock phase with the mutex it
  believes to guard the stream held; holding an open generation; finished; crashed.
  Each critical section of \<open>glock\<close> and each mutex operation is one step. The rest
  of \<open>ObtainGeneration\<close> and the whole of \<open>Commit\<close> are one step each, which
  leaves out interleavings of the program and adds none.
\<close>

datatype position =
    Start UUID
  | Looked UUID "nat option"
  | Made UUID nat
  | Locked UUID
  | Open Generation
  | Finished Generation
  | Crashed string

fun goroutine_step :: "externals \<Rightarrow> BlockStore \<Rightarrow> position \<Rightarrow> BlockStore \<times> position" where
  "goroutine_step ext bs (Start uid) = (bs, Looked uid (wlocks bs (UUIDToMapKey uid)))"
| "goroutine_step ext bs (Looked uid None) =
     (let (mtx, bs1) = new_locked_Mutex bs in (bs1, Made uid mtx))"
| "goroutine_step ext bs (Made uid mtx) =
     (bs\<lparr>wlocks := (wlocks bs)(UUIDToMapKey uid \<mapsto> mtx)\<rparr>, Locked uid)"
| "goroutine_step ext bs (Looked uid (Some mtx)) =
     (case Mutex_Lock bs mtx of
        None \<Rightarrow> (bs, Looked uid (Some mtx))
      | Some bs1 \<Rightarrow> (bs1, Locked uid))"
| "goroutine_step ext bs (Locked uid) =
     (case ObtainGeneration_body bs uid of
        Returned g \<Rightarrow> (bs, Open g)
      | Panicked msg \<Rightarrow> (bs, Crashed msg)
      | Blocked \<Rightarrow> (bs, Locked uid))"
| "goroutine_step ext bs (Open g) =
     (case Commit ext bs g of
        (Returned r, bs', g') \<Rightarrow> (bs', Finished g')
      | (Panicked msg, bs', g') \<Rightarrow> (bs', Crashed msg)
      | (Blocked, bs', g') \<Rightarrow> (bs', Open g'))"
| "goroutine_step ext bs (Finished g) = (bs, Finished g)"
| "goroutine_step ext bs (Crashed msg) = (bs, Crashed msg)"

text \<open>A schedule names, step by step, the goroutine that moves.\<close>

fun run :: "externals \<Rightarrow> nat list \<Rightarrow> BlockStore \<times> position list \<Rightarrow> BlockStore \<times> position list" where
  "run ext [] st = st"
| "run ext (i # sched) (bs, ps) =
     (if i < length ps
      then (let (bs', p') = goroutine_step ext bs (ps ! i) in run ext sched (bs', ps[i := p']))
      else run ext sched (bs, ps))"

text \<open>The generations that are open, that is obtained and not yet committed.\<close>

fun open_generations :: "position list \<Rightarrow> Generation list" where
  "open_generations [] = []"
| "open_generations (Open g # ps) = g # open_generations ps"
| "open_generations (p # ps) = open_generations ps"

subsection \<open>Notions used in the statements\<close>

text \<open>
  The selector of the \<open>Upsert\<close> in \<open>UnlinkGenerations\<close> names a record by its stream
  and version.
\<close>

definition sblock_key :: "fake_sblock \<Rightarrow> string \<times> u64" where
  "sblock_key d = (Uuid d, Gen d)"

text \<open>
  The address the spec expects at position \<open>k\<close> of the allocator's sequence, counting
  from 0: the base plus \<open>k\<close>, starting again at the base after the greatest \<open>uint64\<close>.
\<close>

definition address_at :: "u64 \<Rightarrow> nat \<Rightarrow> u64" where
  "address_at base k = base + of_nat (k mod (2 ^ 64 - unat base))"

text \<open>
  What holds of the allocator between events when \<open>c\<close> addresses have been delivered:
  the buffer holds the next addresses of the sequence and the goroutine's variable the
  one after them.
\<close>

definition alloc_inv :: "u64 \<Rightarrow> nat \<Rightarrow> allocator \<Rightarrow> bool" where
  "alloc_inv base c al \<longleftrightarrow>
     chan al = map (address_at base) [c ..< c + length (chan al)] \<and>
     relocation_addr al = address_at base (c + length (chan al))"

subsection \<open>Concrete inputs\<close>

text \<open>
  Three streams, a metadata store with records of the first two, collaborators to run
  with, and a store built on them.
\<close>

definition stream_A :: UUID where
  "stream_A = [1, 1, 1, 1, 1, 1, 1, 1, 1, 1, 1, 1, 1, 1, 1, 1]"

definition stream_B :: UUID where
  "stream_B = [2, 2, 2, 2, 2, 2, 2, 2, 2, 2, 2, 2, 2, 2, 2, 255]"

definition stream_C :: UUID where
  "stream_C = [3, 3, 3, 3, 3, 3, 3, 3, 3, 3, 3, 3, 3, 3, 3, 3]"

definition sample_db :: database where
  "sample_db =
     \<lparr>superblocks =
        [\<lparr>Uuid = uuid_String stream_A, Gen = 1, Root = 10, Unlinked = False\<rparr>,
         \<lparr>Uuid = uuid_String stream_A, Gen = 2, Root = 20, Unlinked = False\<rparr>,
         \<lparr>Uuid = uuid_String stream_B, Gen = 3, Root = 33, Unlinked = False\<rparr>,
         \<lparr>Uuid = uuid_String stream_A, Gen = 3, Root = 30, Unlinked = True\<rparr>,
         \<lparr>Uuid = uuid_String stream_A, Gen = 4, Root = 40, Unlinked = False\<rparr>,
         \<lparr>Uuid = uuid_String stream_A, Gen = 5, Root = 50, Unlinked = False\<rparr>,
         \<lparr>Uuid = uuid_String stream_A, Gen = 6, Root = 60, Unlinked = False\<rparr>],
      fault = False\<rparr>"

definition sample_externals :: externals where
  "sample_externals =
     \<lparr>RELOCATION_BASE = 1000,
      LinkAndStore = (\<lambda>st vs cs.
         (map_of (map (\<lambda>v. (vIdentifier v, vIdentifier v + 1)) vs @
                  map (\<lambda>c. (cIdentifier c, cIdentifier c + 1)) cs), st)),
      DatablockGetBufferType = (\<lambda>b. case b of [] \<Rightarrow> Bad
                                    | t # _ \<Rightarrow> if t = 1 then Vector else if t = 2 then Core else Bad),
      Coreblock_Deserialize = (\<lambda>b c. c\<lparr>cPayload := b\<rparr>),
      Vectorblock_Deserialize = (\<lambda>b v. v\<lparr>vPayload := b\<rparr>)\<rparr>"

text \<open>The same collaborators with a linker that leaves every address where it is.\<close>

definition race_externals :: externals where
  "race_externals = sample_externals\<lparr>LinkAndStore := (\<lambda>st vs cs. (\<lambda>a. Some a, st))\<rparr>"

text \<open>
  The metadata store as two goroutines leave it that obtained a generation of stream A
  at the same time and committed both: two records of stream A and version 7.
\<close>

definition race_db :: database where
  "race_db =
     sample_db\<lparr>superblocks := superblocks sample_db @
        [\<lparr>Uuid = uuid_String stream_A, Gen = 7, Root = 60, Unlinked = False\<rparr>,
         \<lparr>Uuid = uuid_String stream_A, Gen = 7, Root = 60, Unlinked = False\<rparr>]\<rparr>"

definition sample_bs :: BlockStore where
  "sample_bs =
     \<lparr>db = sample_db, wlocks = Map.empty, mutex_locked = (\<lambda>m. False), mutex_count = 0,
      cachemap = [], cachemax = 2, store = (\<lambda>a. if a = 7 then [1, 9] else [2, 5]),
      alloc = alloc_init 1000\<rparr>"

text \<open>The generation that ObtainGeneration gives for stream A on the sample store.\<close>

definition sample_gen :: Generation where
  "sample_gen =
     \<lparr>Cur_SB = \<lparr>uuid = stream_A, gen = 6, root = 60, unlinked = False\<rparr>,
      New_SB = \<lparr>uuid = stream_A, gen = 7, root = 60, unlinked = False\<rparr>,
      cblocks = [], vblocks = [], unref_vaddrs = [], flushed = False\<rparr>"

text \<open>
  The same write pass after one core block has been allocated and made the root:
  the store and the generation as they stand before \<open>Commit\<close>.
\<close>

definition sample_work :: "BlockStore \<times> Generation" where
  "sample_work =
     (let bs1 = snd (ObtainGeneration sample_bs stream_A);
          (cb, bs2, g1) = AllocateCoreblock sample_externals bs1 sample_gen
      in (bs2, UpdateRootAddr g1 (cIdentifier cb)))"

section \<open>Properties\<close>

subsection \<open>Facts about the concrete inputs\<close>

lemma stream_A_String: "uuid_String stream_A = ''01010101-0101-0101-0101-010101010101''"
  by (simp add: uuid_String_def stream_A_def hex_def hex_byte_def hex_digit_def)

lemma stream_B_String: "uuid_String stream_B = ''02020202-0202-0202-0202-0202020202ff''"
  by (simp add: uuid_String_def stream_B_def hex_def hex_byte_def hex_digit_def)

lemma stream_C_String: "uuid_String stream_C = ''03030303-0303-0303-0303-030303030303''"
  by (simp add: uuid_String_def stream_C_def hex_def hex_byte_def hex_digit_def)

lemma sample_db_keys: "distinct (map sblock_key (superblocks sample_db))"
  by (simp add: sample_db_def sblock_key_def stream_A_String stream_B_String)

lemma sample_ObtainGeneration:
  "fst (ObtainGeneration sample_bs stream_A) = Returned sample_gen"
  by (simp add: ObtainGeneration_def ObtainGeneration_body_def sample_bs_def sample_gen_def
        new_locked_Mutex_def find_latest_def sample_db_def stream_A_String stream_B_String
        Clone_def)

lemma ObtainGeneration_body_sample:
  "db bs = sample_db \<Longrightarrow> ObtainGeneration_body bs stream_A = Returned sample_gen"
  by (simp add: ObtainGeneration_body_def sample_gen_def find_latest_def sample_db_def
        stream_A_String stream_B_String Clone_def)

lemma sample_work_gen:
  "snd sample_work =
     \<lparr>Cur_SB = \<lparr>uuid = stream_A, gen = 6, root = 60, unlinked = False\<rparr>,
      New_SB = \<lparr>uuid = stream_A, gen = 7, root = 1000, unlinked = False\<rparr>,
      cblocks = [\<lparr>cIdentifier = 1000, cGeneration = 7, cPointWidth = 0, cStartTime = 0,
                  cPayload = []\<rparr>],
      vblocks = [], unref_vaddrs = [], flushed = False\<rparr>"
  by (simp add: sample_work_def AllocateCoreblock_def allocateBlock_def receive_def
        ObtainGeneration_def new_locked_Mutex_def sample_bs_def sample_externals_def
        alloc_init_def sample_gen_def UpdateRootAddr_def zero_Coreblock_def Number_def Let_def)

lemma sample_work_store: "store (fst sample_work) = store sample_bs"
  by (simp add: sample_work_def AllocateCoreblock_def allocateBlock_def receive_def
        ObtainGeneration_def new_locked_Mutex_def Let_def sample_bs_def split: prod.splits)

lemma sample_work_db: "db (fst sample_work) = sample_db"
  by (simp add: sample_work_def AllocateCoreblock_def allocateBlock_def receive_def
        ObtainGeneration_def new_locked_Mutex_def Let_def sample_bs_def split: prod.splits)

lemma sample_LinkAndStore:
  "LinkAndStore sample_externals (store (fst sample_work)) (vblocks (snd sample_work))
     (cblocks (snd sample_work)) = ([1000 \<mapsto> 1001], store sample_bs)"
  by (simp add: sample_work_gen sample_work_store sample_externals_def)

lemma sample_LinkAndStore_empty:
  "LinkAndStore sample_externals (store (fst sample_work)) (vblocks sample_gen)
     (cblocks sample_gen) = (Map.empty, store sample_bs)"
  by (simp add: sample_gen_def sample_work_store sample_externals_def)

lemma sample_Commit_result:
  "\<exists>m. fst (Commit sample_externals (fst sample_work) (snd sample_work)) = Returned (Inr m)"
  apply (simp add: sample_work_gen)
  apply (simp add: Commit_def sample_work_def AllocateCoreblock_def allocateBlock_def receive_def
        ObtainGeneration_def new_locked_Mutex_def sample_bs_def sample_externals_def
        alloc_init_def sample_gen_def UpdateRootAddr_def zero_Coreblock_def Number_def
        Insert_def sample_db_def Uuid_of_def Mutex_Unlock_def Let_def)
  done

lemma sample_read_first:
  "fst (ReadDatablock sample_externals sample_bs 5 1 2 3) =
     Returned (DCore \<lparr>cIdentifier = 5, cGeneration = 1, cPointWidth = 2, cStartTime = 3,
                      cPayload = [2, 5]\<rparr>)"
  by (simp add: ReadDatablock_def cacheGet_def sample_bs_def sample_externals_def
        zero_Coreblock_def Let_def)

lemma sample_read_first_cache:
  "cachemap (snd (ReadDatablock sample_externals sample_bs 5 1 2 3)) =
     [(5, DCore \<lparr>cIdentifier = 5, cGeneration = 1, cPointWidth = 2, cStartTime = 3,
                  cPayload = [2, 5]\<rparr>)]"
  by (simp add: ReadDatablock_def cacheGet_def cachePut_def sample_bs_def sample_externals_def
        zero_Coreblock_def Let_def)

lemma sample_NewBlockStore:
  "\<exists>bs. NewBlockStore sample_externals (Some sample_db) 2 True (\<lambda>a. []) = Returned (Inr bs)"
  by (simp add: NewBlockStore_def)

lemma high_NewBlockStore:
  "\<exists>bs. NewBlockStore (sample_externals\<lparr>RELOCATION_BASE := 18446744073709551613\<rparr>)
          (Some sample_db) 2 True (\<lambda>a. []) = Returned (Inr bs)"
  by (simp add: NewBlockStore_def)

subsection \<open>Queries on the metadata store\<close>

lemma LatestGeneration_max: "LatestGeneration = - 1"
  by (simp add: LatestGeneration_def)

lemma unat_LatestGeneration: "unat LatestGeneration = 2 ^ 64 - 1"
  by (simp add: LatestGeneration_def unsigned_minus_1_eq_mask mask_eq_exp_minus_1)

lemma not_LatestGeneration:
  fixes g :: u64
  assumes "g < egen"
  shows "g \<noteq> LatestGeneration"
proof
  assume "g = LatestGeneration"
  with assms have "- 1 < egen" by (simp add: LatestGeneration_max)
  then show False by simp
qed

lemma sort_gen_desc_One_None: "sort_gen_desc_One ds = None \<longleftrightarrow> ds = []"
  by (induction ds) (auto split: option.splits)

lemma sort_gen_desc_One_mem: "sort_gen_desc_One ds = Some d \<Longrightarrow> d \<in> set ds"
  by (induction ds arbitrary: d) (auto split: option.splits if_splits)

lemma sort_gen_desc_One_max: "sort_gen_desc_One ds = Some d \<Longrightarrow> e \<in> set ds \<Longrightarrow> Gen e \<le> Gen d"
proof (induction ds arbitrary: d e)
  case Nil
  then show ?case by simp
next
  case (Cons a ds)
  show ?case
  proof (cases "sort_gen_desc_One ds")
    case None
    then have "ds = []" by (simp add: sort_gen_desc_One_None)
    with Cons.prems None show ?thesis by auto
  next
    case (Some m)
    have le: "\<And>x. x \<in> set ds \<Longrightarrow> Gen x \<le> Gen m"
      using Cons.IH [OF Some] .
    show ?thesis
    proof (cases "Gen a < Gen m")
      case True
      with Cons.prems Some have "d = m" by simp
      with True le Cons.prems(2) show ?thesis by auto
    next
      case False
      with Cons.prems Some have "d = a" by simp
      with False le Cons.prems(2) show ?thesis by fastforce
    qed
  qed
qed

lemma find_Some_holds: "find P xs = Some x \<Longrightarrow> x \<in> set xs \<and> P x"
  by (induction xs) (auto split: if_splits)

lemma find_unique_key:
  assumes "distinct (map k xs)" and "x \<in> set xs"
  shows "find (\<lambda>e. k e = k x) xs = Some x"
  using assms
proof (induction xs)
  case Nil
  then show ?case by simp
next
  case (Cons a xs)
  then show ?case by (cases "a = x") (auto simp: image_iff)
qed

lemma sblock_key_Unlinked [simp]: "sblock_key (d\<lparr>Unlinked := b\<rparr>) = sblock_key d"
  by (simp add: sblock_key_def)

lemma replace_first_unique_key:
  assumes "distinct (map k xs)" and "kx \<in> k ` set xs"
  shows "replace_first (\<lambda>d. k d = kx) y xs = map (\<lambda>d. if k d = kx then y else d) xs"
  using assms
proof (induction xs)
  case Nil
  then show ?case by simp
next
  case (Cons a xs)
  show ?case
  proof (cases "k a = kx")
    case True
    from Cons.prems(1) have "k a \<notin> k ` set xs" by simp
    with True have "\<forall>d \<in> set xs. k d \<noteq> kx" by (metis imageI)
    then have "map (\<lambda>d. if k d = kx then y else d) xs = xs"
      by (induction xs) auto
    with True show ?thesis by simp
  next
    case False
    with Cons.prems have "distinct (map k xs)" "kx \<in> k ` set xs" by auto
    from Cons.IH [OF this] False show ?thesis by simp
  qed
qed

lemma Upsert_unique_key:
  assumes "\<not> fault mdb" and "distinct (map sblock_key (superblocks mdb))"
    and "d \<in> set (superblocks mdb)" and "Uuid d = s" and "Gen d = g"
  shows "Upsert mdb s g rs =
           Inr (mdb\<lparr>superblocks := map (\<lambda>e. if sblock_key e = sblock_key d then rs else e)
                                       (superblocks mdb)\<rparr>)"
proof -
  have p: "(\<lambda>e. Uuid e = s \<and> Gen e = g) = (\<lambda>e. sblock_key e = sblock_key d)"
    using assms(4,5) by (auto simp: sblock_key_def fun_eq_iff)
  from assms(3) have "sblock_key d \<in> sblock_key ` set (superblocks mdb)" by simp
  from replace_first_unique_key [OF assms(2) this, of rs] assms(1) show ?thesis
    by (simp add: Upsert_def p)
qed

subsection \<open>The write locks\<close>

lemma ObtainGeneration_holds_lock:
  assumes "ObtainGeneration bs uid = (r, bs1)" and "r \<noteq> Blocked"
  shows "\<exists>mtx. wlocks bs1 (UUIDToMapKey uid) = Some mtx \<and> mutex_locked bs1 mtx"
  using assms
  by (auto simp: ObtainGeneration_def Let_def new_locked_Mutex_def Mutex_Lock_def
           ObtainGeneration_body_def
           split: option.splits if_splits sum.splits mgo_error.splits)

lemma ObtainGeneration_waits:
  assumes "ObtainGeneration bs uid = (Returned g, bs1)"
  shows "ObtainGeneration bs1 uid = (Blocked, bs1)"
proof -
  from ObtainGeneration_holds_lock [OF assms] obtain mtx
    where "wlocks bs1 (UUIDToMapKey uid) = Some mtx" "mutex_locked bs1 mtx" by auto
  then show ?thesis by (simp add: ObtainGeneration_def Mutex_Lock_def)
qed

text \<open>
  C1: two goroutines call \<open>ObtainGeneration\<close> for stream A, which has no entry in
  \<open>_wlocks\<close> yet, and take their steps in turn. Both find no mutex, each makes and
  locks one of its own, each stores its own: after eight steps both hold an open
  generation of stream A for version 7, mutexes 0 and 1 are both locked, and the registry
  holds mutex 1 only. Both then commit: the first unlocks the mutex of the second, the
  second inserts a second record of version 7 and dies unlocking a mutex that is not
  locked. So the code does not keep to one open generation per stream.
\<close>

theorem ObtainGeneration_race:
  "open_generations
     (snd (run race_externals [0, 1, 0, 1, 0, 1, 0, 1]
             (sample_bs, [Start stream_A, Start stream_A]))) = [sample_gen, sample_gen] \<and>
   \<not> flushed sample_gen \<and>
   wlocks (fst (run race_externals [0, 1, 0, 1, 0, 1, 0, 1]
                  (sample_bs, [Start stream_A, Start stream_A]))) (UUIDToMapKey stream_A)
     = Some 1 \<and>
   mutex_locked (fst (run race_externals [0, 1, 0, 1, 0, 1, 0, 1]
                  (sample_bs, [Start stream_A, Start stream_A]))) 0 \<and>
   mutex_locked (fst (run race_externals [0, 1, 0, 1, 0, 1, 0, 1]
                  (sample_bs, [Start stream_A, Start stream_A]))) 1 \<and>
   superblocks (db (fst (run race_externals [0, 1, 0, 1, 0, 1, 0, 1, 0, 1]
                  (sample_bs, [Start stream_A, Start stream_A])))) =
     superblocks sample_db @
       [\<lparr>Uuid = uuid_String stream_A, Gen = 7, Root = 60, Unlinked = False\<rparr>,
        \<lparr>Uuid = uuid_String stream_A, Gen = 7, Root = 60, Unlinked = False\<rparr>] \<and>
   snd (run race_externals [0, 1, 0, 1, 0, 1, 0, 1, 0, 1]
          (sample_bs, [Start stream_A, Start stream_A])) =
     [Finished (sample_gen\<lparr>flushed := True\<rparr>), Crashed ''sync: unlock of unlocked mutex'']"
proof -
  have db: "db sample_bs = sample_db" by (simp add: sample_bs_def)
  have w: "wlocks sample_bs = Map.empty" by (simp add: sample_bs_def)
  have r: "run race_externals [0, 1, 0, 1, 0, 1, 0, 1]
             (sample_bs, [Start stream_A, Start stream_A]) =
           (sample_bs\<lparr>mutex_locked := (mutex_locked sample_bs)(0 := True, 1 := True),
                      mutex_count := 2,
                      wlocks := [UUIDToMapKey stream_A \<mapsto> 1]\<rparr>,
            [Open sample_gen, Open sample_gen])"
    by (simp add: new_locked_Mutex_def ObtainGeneration_body_sample db w sample_bs_def)
  have c: "superblocks (db (fst (run race_externals [0, 1, 0, 1, 0, 1, 0, 1, 0, 1]
                  (sample_bs, [Start stream_A, Start stream_A])))) =
     superblocks sample_db @
       [\<lparr>Uuid = uuid_String stream_A, Gen = 7, Root = 60, Unlinked = False\<rparr>,
        \<lparr>Uuid = uuid_String stream_A, Gen = 7, Root = 60, Unlinked = False\<rparr>] \<and>
   snd (run race_externals [0, 1, 0, 1, 0, 1, 0, 1, 0, 1]
          (sample_bs, [Start stream_A, Start stream_A])) =
     [Finished (sample_gen\<lparr>flushed := True\<rparr>), Crashed ''sync: unlock of unlocked mutex'']"
    by (simp add: new_locked_Mutex_def ObtainGeneration_body_sample db w sample_bs_def
          race_externals_def Commit_def sample_gen_def Insert_def sample_db_def Uuid_of_def
          Mutex_Unlock_def Let_def)
  from c show ?thesis unfolding r by (simp add: sample_gen_def)
qed

subsection \<open>Commit\<close>

lemma Commit_flushed:
  "flushed g \<Longrightarrow> Commit ext bs g = (Returned (Inl ''Already Flushed''), bs, g)"
  by (simp add: Commit_def)

lemma Commit_success_flushed:
  assumes "Commit ext bs g = (Returned (Inr address_map), bs', g')"
  shows "flushed g'"
  using assms
  by (auto simp: Commit_def Let_def split: if_splits prod.splits option.splits sum.splits)

text \<open>
  C2: when \<open>Commit\<close> has returned its address map for a generation, a further
  \<open>Commit\<close> on the generation it left behind, on whatever state the store is in by
  then, returns the error "Already Flushed", leaves the store as it was, so that
  no superblock record is added, and leaves the generation as it was.
\<close>

theorem Commit_twice:
  assumes "Commit ext bs g = (Returned (Inr address_map), bs', g')"
  shows "Commit ext bs'' g' = (Returned (Inl ''Already Flushed''), bs'', g') \<and>
         superblocks (db (fst (snd (Commit ext bs'' g')))) = superblocks (db bs'') \<and>
         snd (snd (Commit ext bs'' g')) = g'"
  using Commit_success_flushed [OF assms] by (simp add: Commit_flushed)

theorem Commit_twice_witness:
  "\<exists>address_map bs' g'.
      Commit sample_externals (fst sample_work) (snd sample_work)
        = (Returned (Inr address_map), bs', g') \<and>
      Commit sample_externals bs' g' = (Returned (Inl ''Already Flushed''), bs', g')"
proof -
  from sample_Commit_result obtain m bs' g'
    where c: "Commit sample_externals (fst sample_work) (snd sample_work)
                = (Returned (Inr m), bs', g')"
    by (metis prod.collapse)
  from Commit_twice [OF c, of bs'] c show ?thesis by blast
qed

lemma Commit_root_missing:
  assumes "\<not> flushed g"
    and "LinkAndStore ext (store bs) (vblocks g) (cblocks g) = (address_map, st)"
    and "address_map (root (New_SB g)) = None"
  shows "Commit ext bs g =
           (Panicked ''Could not obtain root address'', bs\<lparr>store := st\<rparr>,
            g\<lparr>vblocks := [], cblocks := []\<rparr>)"
  using assms by (simp add: Commit_def)

lemma Commit_root_present:
  assumes "\<not> flushed g"
    and "LinkAndStore ext (store bs) (vblocks g) (cblocks g) = (address_map, st)"
    and "address_map (root (New_SB g)) = Some r"
  shows "\<exists>res bs' g'. Commit ext bs g = (res, bs', g') \<and> root (New_SB g') = r \<and>
           (if fault (db bs)
            then res = Panicked ''mgo error'' \<and> superblocks (db bs') = superblocks (db bs)
            else superblocks (db bs') =
                   superblocks (db bs) @
                     [\<lparr>Uuid = uuid_String (uuid (New_SB g)), Gen = gen (New_SB g), Root = r,
                       Unlinked = False\<rparr>])"
  using assms
  by (auto simp: Commit_def Let_def Insert_def Uuid_of_def Mutex_Unlock_def
           split: option.splits if_splits)

lemma Commit_ignores_unref_vaddrs:
  "db (fst (snd (Commit ext bs (g\<lparr>unref_vaddrs := xs\<rparr>)))) =
   db (fst (snd (Commit ext bs (g\<lparr>unref_vaddrs := ys\<rparr>))))"
  by (auto simp: Commit_def Let_def Uuid_of_def Insert_def Mutex_Unlock_def
           split: prod.splits option.splits sum.splits)

text \<open>
  C3: a write pass on stream A allocates a core block, makes it the root, calls
  \<open>UnreferenceBlock\<close> with 60 and with 50, and commits. The generation holds the list
  [60, 50], but the one record \<open>Commit\<close> adds consists of stream, version 7, root 1001
  and \<open>Unlinked = False\<close>, and the metadata store ends up exactly as it does when
  \<open>UnreferenceBlock\<close> is never called: the addresses are not persisted.
\<close>

theorem Commit_drops_unref_vaddrs:
  "superblocks (db (fst (snd (Commit sample_externals (fst sample_work)
      (UnreferenceBlock (UnreferenceBlock (snd sample_work) 60) 50))))) =
     superblocks sample_db @
       [\<lparr>Uuid = uuid_String stream_A, Gen = 7, Root = 1001, Unlinked = False\<rparr>] \<and>
   db (fst (snd (Commit sample_externals (fst sample_work)
      (UnreferenceBlock (UnreferenceBlock (snd sample_work) 60) 50)))) =
   db (fst (snd (Commit sample_externals (fst sample_work) (snd sample_work)))) \<and>
   unref_vaddrs (UnreferenceBlock (UnreferenceBlock (snd sample_work) 60) 50) = [60, 50]"
proof -
  let ?g = "UnreferenceBlock (UnreferenceBlock (snd sample_work) 60) 50"
  have g: "?g = (snd sample_work)\<lparr>unref_vaddrs := [60, 50]\<rparr>"
    by (simp add: UnreferenceBlock_def sample_work_gen)
  have g0: "snd sample_work = (snd sample_work)\<lparr>unref_vaddrs := []\<rparr>"
    by (simp add: sample_work_gen)
  have same: "db (fst (snd (Commit sample_externals (fst sample_work) ?g))) =
      db (fst (snd (Commit sample_externals (fst sample_work) (snd sample_work))))"
    using Commit_ignores_unref_vaddrs [where ext = sample_externals and bs = "fst sample_work"
        and g = "snd sample_work" and xs = "[60, 50]" and ys = "[]"]
      g g0 by simp
  have f1: "\<not> flushed (snd sample_work)" by (simp add: sample_work_gen)
  have nf: "\<not> fault (db (fst sample_work))" by (simp add: sample_work_db sample_db_def)
  from Commit_root_present [OF f1 sample_LinkAndStore, of 1001] nf
  have "superblocks (db (fst (snd (Commit sample_externals (fst sample_work) (snd sample_work))))) =
     superblocks sample_db @
       [\<lparr>Uuid = uuid_String stream_A, Gen = 7, Root = 1001, Unlinked = False\<rparr>]"
    by (auto simp: sample_work_gen sample_work_db)
  with same g show ?thesis by (simp add: sample_work_gen)
qed

subsection \<open>The typed read path\<close>

lemma ReadDatablock_hit:
  assumes "map_of (cachemap bs) addr = Some d"
  shows "fst (ReadDatablock ext bs addr v pw st) = Returned d"
  using assms by (simp add: ReadDatablock_def cacheGet_def)

lemma ReadDatablock_miss:
  assumes "map_of (cachemap bs) addr = None"
    and "ReadDatablock ext bs addr v pw st = (Returned d, bs')"
  shows "Identifier_of d = addr \<and> Generation_of d = v \<and> PointWidth_of d = pw \<and>
         StartTime_of d = st"
  using assms
  by (auto simp: ReadDatablock_def cacheGet_def Let_def split: BlockType.splits)

lemma ReadDatablock_miss_returns:
  assumes "map_of (cachemap bs) addr = None"
    and "DatablockGetBufferType ext (store bs addr) \<noteq> Bad"
  shows "\<exists>d bs'. ReadDatablock ext bs addr v pw st = (Returned d, bs')"
  using assms
  by (auto simp: ReadDatablock_def cacheGet_def Let_def split: BlockType.splits)

text \<open>
  C4, as amended: a call of \<open>ReadDatablock\<close> for an address that is not in the cache
  returns, unless the type tag is unknown, and every block it returns carries the address
  and the caller's version, point width and start time. A call for an address that is in
  the cache returns the cached block as it is, whatever the caller supplies.
\<close>

theorem ReadDatablock_stamps_on_miss:
  "(map_of (cachemap bs) addr = None \<longrightarrow>
      (DatablockGetBufferType ext (store bs addr) \<noteq> Bad \<longrightarrow>
         (\<exists>d bs'. ReadDatablock ext bs addr v pw st = (Returned d, bs'))) \<and>
      (\<forall>d bs'. ReadDatablock ext bs addr v pw st = (Returned d, bs') \<longrightarrow>
         Identifier_of d = addr \<and> Generation_of d = v \<and> PointWidth_of d = pw \<and>
         StartTime_of d = st)) \<and>
   (\<forall>d. map_of (cachemap bs) addr = Some d \<longrightarrow>
      fst (ReadDatablock ext bs addr v pw st) = Returned d)"
  using ReadDatablock_hit [of bs addr _ ext v pw st]
    ReadDatablock_miss [of bs addr ext v pw st]
    ReadDatablock_miss_returns [of bs addr ext v pw st]
  by blast

theorem ReadDatablock_stamps_on_miss_witness:
  "map_of (cachemap sample_bs) 5 = None \<and>
   DatablockGetBufferType sample_externals (store sample_bs 5) \<noteq> Bad \<and>
   (\<exists>d bs'. ReadDatablock sample_externals sample_bs 5 1 2 3 = (Returned d, bs') \<and>
      Identifier_of d = 5 \<and> Generation_of d = 1 \<and> PointWidth_of d = 2 \<and> StartTime_of d = 3) \<and>
   map_of (cachemap (snd (ReadDatablock sample_externals sample_bs 5 1 2 3))) 5 =
     Some (DCore \<lparr>cIdentifier = 5, cGeneration = 1, cPointWidth = 2, cStartTime = 3,
                   cPayload = [2, 5]\<rparr>) \<and>
   fst (ReadDatablock sample_externals (snd (ReadDatablock sample_externals sample_bs 5 1 2 3))
          5 9 8 7) =
     Returned (DCore \<lparr>cIdentifier = 5, cGeneration = 1, cPointWidth = 2, cStartTime = 3,
                      cPayload = [2, 5]\<rparr>)"
proof -
  let ?bs1 = "snd (ReadDatablock sample_externals sample_bs 5 1 2 3)"
  let ?d = "DCore \<lparr>cIdentifier = 5, cGeneration = 1, cPointWidth = 2, cStartTime = 3,
                   cPayload = [2, 5]\<rparr>"
  have m: "map_of (cachemap sample_bs) 5 = None" by (simp add: sample_bs_def)
  have t: "DatablockGetBufferType sample_externals (store sample_bs 5) \<noteq> Bad"
    by (simp add: sample_bs_def sample_externals_def)
  have h: "map_of (cachemap ?bs1) 5 = Some ?d" by (simp add: sample_read_first_cache)
  note T1 = ReadDatablock_stamps_on_miss [of sample_bs 5 sample_externals 1 2 3]
  from T1 m t
  have a: "\<exists>d bs'. ReadDatablock sample_externals sample_bs 5 1 2 3 = (Returned d, bs') \<and>
      Identifier_of d = 5 \<and> Generation_of d = 1 \<and> PointWidth_of d = 2 \<and> StartTime_of d = 3"
    by blast
  note T2 = ReadDatablock_stamps_on_miss [of ?bs1 5 sample_externals 9 8 7]
  from T2 h have b: "fst (ReadDatablock sample_externals ?bs1 5 9 8 7) = Returned ?d"
    by blast
  from m t a h b show ?thesis by blast
qed

text \<open>
  C4 as stated fails on a cache hit: the same address read a second time, from another
  context, comes back with the version, point width and start time of the first read.
\<close>

theorem ReadDatablock_hit_counterexample:
  "\<not> (\<forall>ext bs addr v pw st d bs'.
        ReadDatablock ext bs addr v pw st = (Returned d, bs') \<longrightarrow>
        Generation_of d = v \<and> PointWidth_of d = pw \<and> StartTime_of d = st)"
proof
  let ?bs1 = "snd (ReadDatablock sample_externals sample_bs 5 1 2 3)"
  let ?d = "DCore \<lparr>cIdentifier = 5, cGeneration = 1, cPointWidth = 2, cStartTime = 3,
                   cPayload = [2, 5]\<rparr>"
  assume a: "\<forall>ext bs addr v pw st d bs'.
        ReadDatablock ext bs addr v pw st = (Returned d, bs') \<longrightarrow>
        Generation_of d = v \<and> PointWidth_of d = pw \<and> StartTime_of d = st"
  have "map_of (cachemap ?bs1) 5 = Some ?d" by (simp add: sample_read_first_cache)
  then have "fst (ReadDatablock sample_externals ?bs1 5 9 8 7) = Returned ?d"
    by (rule ReadDatablock_hit)
  then obtain bs' where "ReadDatablock sample_externals ?bs1 5 9 8 7 = (Returned ?d, bs')"
    by (metis prod.collapse)
  with a have "Generation_of ?d = 9" by blast
  then show False by simp
qed

subsection \<open>The versions of a generation\<close>

lemma ObtainGeneration_body_versions:
  "ObtainGeneration_body bs uid = Returned g \<Longrightarrow> gen (New_SB g) = gen (Cur_SB g) + 1"
  by (auto simp: ObtainGeneration_body_def Let_def Clone_def
           split: sum.splits mgo_error.splits)

lemma ObtainGeneration_versions:
  "ObtainGeneration bs uid = (Returned g, bs') \<Longrightarrow> gen (New_SB g) = gen (Cur_SB g) + 1"
  by (auto simp: ObtainGeneration_def Let_def dest: ObtainGeneration_body_versions
           split: option.splits prod.splits)

lemma Commit_versions:
  "gen (Cur_SB (snd (snd (Commit ext bs g)))) = gen (Cur_SB g) \<and>
   gen (New_SB (snd (snd (Commit ext bs g)))) = gen (New_SB g)"
  by (auto simp: Commit_def Let_def split: prod.splits option.splits sum.splits)

lemma Allocate_versions:
  "gen (Cur_SB (snd (snd (AllocateCoreblock ext bs g)))) = gen (Cur_SB g) \<and>
   gen (New_SB (snd (snd (AllocateCoreblock ext bs g)))) = gen (New_SB g) \<and>
   gen (Cur_SB (snd (snd (AllocateVectorblock ext bs g)))) = gen (Cur_SB g) \<and>
   gen (New_SB (snd (snd (AllocateVectorblock ext bs g)))) = gen (New_SB g)"
  by (simp add: AllocateCoreblock_def AllocateVectorblock_def Let_def split: prod.splits)

lemma unat_Suc_word:
  fixes a :: u64
  assumes "unat a < 2 ^ 64 - 1"
  shows "unat (a + 1) = unat a + 1"
  using assms by (simp add: unat_word_ariths)

text \<open>
  C5: the generation that \<open>ObtainGeneration\<close> returns has
  \<open>New_SB.gen = Cur_SB.gen + 1\<close>, the addition being that of \<open>uint64\<close> (below the
  greatest value it is the successor), and none of \<open>UpdateRootAddr\<close>,
  \<open>UnreferenceBlock\<close>, \<open>AllocateCoreblock\<close>, \<open>AllocateVectorblock\<close> and \<open>Commit\<close>
  changes the version of either superblock, however the call ends.
\<close>

theorem Generation_versions:
  "(ObtainGeneration bs uid = (Returned g0, bs0) \<longrightarrow>
      gen (New_SB g0) = gen (Cur_SB g0) + 1 \<and>
      (unat (gen (Cur_SB g0)) < 2 ^ 64 - 1 \<longrightarrow>
         unat (gen (New_SB g0)) = unat (gen (Cur_SB g0)) + 1)) \<and>
   gen (Cur_SB (UpdateRootAddr g addr)) = gen (Cur_SB g) \<and>
   gen (New_SB (UpdateRootAddr g addr)) = gen (New_SB g) \<and>
   gen (Cur_SB (UnreferenceBlock g addr)) = gen (Cur_SB g) \<and>
   gen (New_SB (UnreferenceBlock g addr)) = gen (New_SB g) \<and>
   gen (Cur_SB (snd (snd (AllocateCoreblock ext bs g)))) = gen (Cur_SB g) \<and>
   gen (New_SB (snd (snd (AllocateCoreblock ext bs g)))) = gen (New_SB g) \<and>
   gen (Cur_SB (snd (snd (AllocateVectorblock ext bs g)))) = gen (Cur_SB g) \<and>
   gen (New_SB (snd (snd (AllocateVectorblock ext bs g)))) = gen (New_SB g) \<and>
   gen (Cur_SB (snd (snd (Commit ext bs g)))) = gen (Cur_SB g) \<and>
   gen (New_SB (snd (snd (Commit ext bs g)))) = gen (New_SB g)"
proof -
  have a: "ObtainGeneration bs uid = (Returned g0, bs0) \<longrightarrow>
      gen (New_SB g0) = gen (Cur_SB g0) + 1 \<and>
      (unat (gen (Cur_SB g0)) < 2 ^ 64 - 1 \<longrightarrow>
         unat (gen (New_SB g0)) = unat (gen (Cur_SB g0)) + 1)"
    using ObtainGeneration_versions [of bs uid g0 bs0] unat_Suc_word [of "gen (Cur_SB g0)"]
    by auto
  have b: "gen (Cur_SB (UpdateRootAddr g addr)) = gen (Cur_SB g) \<and>
   gen (New_SB (UpdateRootAddr g addr)) = gen (New_SB g) \<and>
   gen (Cur_SB (UnreferenceBlock g addr)) = gen (Cur_SB g) \<and>
   gen (New_SB (UnreferenceBlock g addr)) = gen (New_SB g)"
    by (simp add: UpdateRootAddr_def UnreferenceBlock_def)
  from a b Allocate_versions [of ext bs g] Commit_versions [of ext bs g] show ?thesis
    by blast
qed

theorem Generation_versions_witness:
  "(\<exists>bs0. ObtainGeneration sample_bs stream_A = (Returned sample_gen, bs0)) \<and>
   unat (gen (Cur_SB sample_gen)) < 2 ^ 64 - 1 \<and>
   gen (New_SB sample_gen) = 7 \<and> gen (Cur_SB sample_gen) = 6 \<and>
   unat (gen (New_SB sample_gen)) = unat (gen (Cur_SB sample_gen)) + 1"
proof -
  from sample_ObtainGeneration
  obtain bs0 where o: "ObtainGeneration sample_bs stream_A = (Returned sample_gen, bs0)"
    by (metis prod.collapse)
  have c: "gen (Cur_SB sample_gen) = 6" by (simp add: sample_gen_def)
  then have u: "unat (gen (Cur_SB sample_gen)) < 2 ^ 64 - 1" by simp
  from Generation_versions [of sample_bs stream_A sample_gen bs0] o u c
  have "gen (New_SB sample_gen) = 7 \<and>
        unat (gen (New_SB sample_gen)) = unat (gen (Cur_SB sample_gen)) + 1"
    by simp
  with o u c show ?thesis by blast
qed

subsection \<open>UnlinkGenerations\<close>

lemma unlink_loop_marks:
  assumes "\<not> fault mdb" and "distinct (map sblock_key (superblocks mdb))"
    and "\<forall>r \<in> set iter. Uuid r = s \<and>
           (\<exists>d \<in> set (superblocks mdb). r\<lparr>Unlinked := True\<rparr> = d\<lparr>Unlinked := True\<rparr>)"
  shows "unlink_loop mdb s iter =
           (Returned (),
            mdb\<lparr>superblocks :=
                  map (\<lambda>d. if sblock_key d \<in> sblock_key ` set iter
                            then d\<lparr>Unlinked := True\<rparr> else d) (superblocks mdb)\<rparr>)"
  using assms
proof (induction iter arbitrary: mdb)
  case Nil
  then show ?case by simp
next
  case (Cons r iter)
  let ?docs = "superblocks mdb"
  let ?r' = "r\<lparr>Unlinked := True\<rparr>"
  let ?step = "\<lambda>e. if sblock_key e = sblock_key r then e\<lparr>Unlinked := True\<rparr> else e"
  from Cons.prems(3) obtain d where d: "d \<in> set ?docs" "?r' = d\<lparr>Unlinked := True\<rparr>"
    and s: "Uuid r = s" by auto
  from d(2) have kd: "sblock_key d = sblock_key r"
    by (metis sblock_key_Unlinked)
  then have ud: "Uuid d = s" "Gen d = Gen r" using s by (simp_all add: sblock_key_def)
  have uniq: "\<And>e. e \<in> set ?docs \<Longrightarrow> sblock_key e = sblock_key r \<Longrightarrow> e = d"
    using Cons.prems(2) d(1) kd by (metis distinct_map inj_onD)
  have docs1: "map (\<lambda>e. if sblock_key e = sblock_key d then ?r' else e) ?docs = map ?step ?docs"
    using uniq d(2) kd by (intro map_cong) auto
  let ?mdb1 = "mdb\<lparr>superblocks := map ?step ?docs\<rparr>"
  have up: "Upsert mdb s (Gen ?r') ?r' = Inr ?mdb1"
    using Upsert_unique_key [OF Cons.prems(1,2) d(1) ud(1), of "Gen r" ?r'] ud(2) docs1
    by simp
  have f1: "\<not> fault ?mdb1" using Cons.prems(1) by simp
  have k1: "map sblock_key (superblocks ?mdb1) = map sblock_key ?docs"
    by simp
  have d1: "distinct (map sblock_key (superblocks ?mdb1))"
    unfolding k1 by (rule Cons.prems(2))
  have a1: "\<forall>r2 \<in> set iter. Uuid r2 = s \<and>
           (\<exists>e \<in> set (superblocks ?mdb1). r2\<lparr>Unlinked := True\<rparr> = e\<lparr>Unlinked := True\<rparr>)"
  proof
    fix r2 assume "r2 \<in> set iter"
    with Cons.prems(3) obtain e where e: "Uuid r2 = s" "e \<in> set ?docs"
      "r2\<lparr>Unlinked := True\<rparr> = e\<lparr>Unlinked := True\<rparr>" by auto
    have "?step e \<in> set (superblocks ?mdb1)" using e(2) by simp
    moreover have "r2\<lparr>Unlinked := True\<rparr> = (?step e)\<lparr>Unlinked := True\<rparr>"
      using e(3) by simp
    ultimately show "Uuid r2 = s \<and>
           (\<exists>e \<in> set (superblocks ?mdb1). r2\<lparr>Unlinked := True\<rparr> = e\<lparr>Unlinked := True\<rparr>)"
      using e(1) by blast
  qed
  have comp: "map (\<lambda>d. if sblock_key d \<in> sblock_key ` set iter
                        then d\<lparr>Unlinked := True\<rparr> else d) (map ?step ?docs) =
              map (\<lambda>d. if sblock_key d \<in> sblock_key ` set (r # iter)
                        then d\<lparr>Unlinked := True\<rparr> else d) ?docs"
    unfolding map_map by (rule map_cong) auto
  from Cons.IH [OF f1 d1 a1] up comp show ?case by simp
qed

lemma UnlinkGenerations_result:
  assumes "\<not> fault mdb" and "distinct (map sblock_key (superblocks mdb))"
  shows "UnlinkGenerations mdb uid sgen egen =
           (Returned (),
            mdb\<lparr>superblocks :=
                  map (\<lambda>d. if Uuid d = uuid_String uid \<and> sgen \<le> Gen d \<and> Gen d < egen \<and>
                               \<not> Unlinked d
                            then d\<lparr>Unlinked := True\<rparr> else d) (superblocks mdb)\<rparr>)"
proof -
  let ?Q = "\<lambda>d. Uuid d = uuid_String uid \<and> sgen \<le> Gen d \<and> Gen d < egen \<and> \<not> Unlinked d"
  let ?docs = "superblocks mdb"
  have it: "find_linked_range mdb (uuid_String uid) sgen egen = filter ?Q ?docs"
    using assms(1) by (simp add: find_linked_range_def)
  have h: "\<forall>r \<in> set (filter ?Q ?docs). Uuid r = uuid_String uid \<and>
           (\<exists>d \<in> set ?docs. r\<lparr>Unlinked := True\<rparr> = d\<lparr>Unlinked := True\<rparr>)"
    by auto
  have inj: "inj_on sblock_key (set ?docs)"
    using assms(2) by (simp add: distinct_map)
  have "\<And>d. d \<in> set ?docs \<Longrightarrow> sblock_key d \<in> sblock_key ` set (filter ?Q ?docs) \<longleftrightarrow> ?Q d"
  proof -
    fix d assume d: "d \<in> set ?docs"
    show "sblock_key d \<in> sblock_key ` set (filter ?Q ?docs) \<longleftrightarrow> ?Q d"
    proof
      assume "sblock_key d \<in> sblock_key ` set (filter ?Q ?docs)"
      then obtain e where e: "e \<in> set ?docs" "?Q e" "sblock_key d = sblock_key e" by auto
      with inj d have "d = e" by (meson inj_onD)
      with e(2) show "?Q d" by simp
    next
      assume "?Q d"
      with d show "sblock_key d \<in> sblock_key ` set (filter ?Q ?docs)" by simp
    qed
  qed
  then have m: "map (\<lambda>d. if sblock_key d \<in> sblock_key ` set (filter ?Q ?docs)
                          then d\<lparr>Unlinked := True\<rparr> else d) ?docs =
                map (\<lambda>d. if ?Q d then d\<lparr>Unlinked := True\<rparr> else d) ?docs"
    by (intro map_cong) simp_all
  from unlink_loop_marks [OF assms h] it m show ?thesis
    by (simp add: UnlinkGenerations_def)
qed

lemma LoadSuperblock_unique_key:
  assumes "\<not> fault mdb" and "distinct (map sblock_key (superblocks mdb))"
    and "d \<in> set (superblocks mdb)" and "Uuid d = uuid_String uid"
    and "Gen d \<noteq> LatestGeneration"
  shows "LoadSuperblock mdb uid (Gen d) =
           Returned (Some \<lparr>uuid = uid, gen = Gen d, root = Root d, unlinked = Unlinked d\<rparr>)"
proof -
  have p: "(\<lambda>e. Uuid e = uuid_String uid \<and> Gen e = Gen d) = (\<lambda>e. sblock_key e = sblock_key d)"
    using assms(4) by (auto simp: sblock_key_def fun_eq_iff)
  from find_unique_key [OF assms(2,3)] assms(1,5) show ?thesis
    by (simp add: LoadSuperblock_def find_exact_def p)
qed

text \<open>
  C6, as amended: on a reachable metadata store that holds at most one record for each
  stream and version, \<open>UnlinkGenerations(S, sgen, egen)\<close> returns nil and leaves the list of records
  as it was but for the field \<open>Unlinked\<close>, set to true on exactly the records of \<open>S\<close>
  with \<open>sgen \<le> Gen < egen\<close> that were not unlinked; stream, version and root of every
  record stay, and so do the records outside the range. Each record of \<open>S\<close> in the range
  can then be loaded by its exact version, with its root and as unlinked.
\<close>

theorem UnlinkGenerations_marks_range:
  assumes "\<not> fault mdb" and "distinct (map sblock_key (superblocks mdb))"
  shows "UnlinkGenerations mdb uid sgen egen =
           (Returned (),
            mdb\<lparr>superblocks :=
                  map (\<lambda>d. if Uuid d = uuid_String uid \<and> sgen \<le> Gen d \<and> Gen d < egen \<and>
                               \<not> Unlinked d
                            then d\<lparr>Unlinked := True\<rparr> else d) (superblocks mdb)\<rparr>) \<and>
         (\<forall>d \<in> set (superblocks mdb).
            Uuid d = uuid_String uid \<and> sgen \<le> Gen d \<and> Gen d < egen \<longrightarrow>
            LoadSuperblock (snd (UnlinkGenerations mdb uid sgen egen)) uid (Gen d) =
              Returned (Some \<lparr>uuid = uid, gen = Gen d, root = Root d, unlinked = True\<rparr>))"
proof -
  let ?Q = "\<lambda>d. Uuid d = uuid_String uid \<and> sgen \<le> Gen d \<and> Gen d < egen \<and> \<not> Unlinked d"
  let ?mark = "\<lambda>d. if ?Q d then d\<lparr>Unlinked := True\<rparr> else d"
  let ?mdb' = "mdb\<lparr>superblocks := map ?mark (superblocks mdb)\<rparr>"
  note r = UnlinkGenerations_result [OF assms, of uid sgen egen]
  have f: "\<not> fault ?mdb'" using assms(1) by simp
  have "map sblock_key (superblocks ?mdb') = map sblock_key (superblocks mdb)" by simp
  with assms(2) have dk: "distinct (map sblock_key (superblocks ?mdb'))" by (simp only:)
  have "\<forall>d \<in> set (superblocks mdb).
            Uuid d = uuid_String uid \<and> sgen \<le> Gen d \<and> Gen d < egen \<longrightarrow>
            LoadSuperblock ?mdb' uid (Gen d) =
              Returned (Some \<lparr>uuid = uid, gen = Gen d, root = Root d, unlinked = True\<rparr>)"
  proof (intro ballI impI)
    fix d assume d: "d \<in> set (superblocks mdb)"
      and q: "Uuid d = uuid_String uid \<and> sgen \<le> Gen d \<and> Gen d < egen"
    from d have m: "?mark d \<in> set (superblocks ?mdb')" by simp
    from q have u: "Uuid (?mark d) = uuid_String uid" by simp
    from q have "Gen d < egen" by simp
    then have "Gen d \<noteq> LatestGeneration" by (rule not_LatestGeneration)
    then have l: "Gen (?mark d) \<noteq> LatestGeneration" by simp
    from LoadSuperblock_unique_key [OF f dk m u l] q
    show "LoadSuperblock ?mdb' uid (Gen d) =
              Returned (Some \<lparr>uuid = uid, gen = Gen d, root = Root d, unlinked = True\<rparr>)"
      by (cases "Unlinked d") simp_all
  qed
  with r show ?thesis by simp
qed

theorem UnlinkGenerations_marks_range_witness:
  "\<not> fault sample_db \<and> distinct (map sblock_key (superblocks sample_db)) \<and>
   fst (UnlinkGenerations sample_db stream_A 2 5) = Returned () \<and>
   superblocks (snd (UnlinkGenerations sample_db stream_A 2 5)) =
     [\<lparr>Uuid = uuid_String stream_A, Gen = 1, Root = 10, Unlinked = False\<rparr>,
      \<lparr>Uuid = uuid_String stream_A, Gen = 2, Root = 20, Unlinked = True\<rparr>,
      \<lparr>Uuid = uuid_String stream_B, Gen = 3, Root = 33, Unlinked = False\<rparr>,
      \<lparr>Uuid = uuid_String stream_A, Gen = 3, Root = 30, Unlinked = True\<rparr>,
      \<lparr>Uuid = uuid_String stream_A, Gen = 4, Root = 40, Unlinked = True\<rparr>,
      \<lparr>Uuid = uuid_String stream_A, Gen = 5, Root = 50, Unlinked = False\<rparr>,
      \<lparr>Uuid = uuid_String stream_A, Gen = 6, Root = 60, Unlinked = False\<rparr>] \<and>
   LoadSuperblock (snd (UnlinkGenerations sample_db stream_A 2 5)) stream_A 4 =
     Returned (Some \<lparr>uuid = stream_A, gen = 4, root = 40, unlinked = True\<rparr>)"
proof -
  have h: "\<not> fault sample_db" by (simp add: sample_db_def)
  note T = UnlinkGenerations_marks_range [OF h sample_db_keys, of stream_A 2 5]
  have le: "\<not> (2::u64) \<le> 1" by (simp add: word_le_nat_alt)
  from T have a: "fst (UnlinkGenerations sample_db stream_A 2 5) = Returned ()" by simp
  from T have b: "superblocks (snd (UnlinkGenerations sample_db stream_A 2 5)) =
     [\<lparr>Uuid = uuid_String stream_A, Gen = 1, Root = 10, Unlinked = False\<rparr>,
      \<lparr>Uuid = uuid_String stream_A, Gen = 2, Root = 20, Unlinked = True\<rparr>,
      \<lparr>Uuid = uuid_String stream_B, Gen = 3, Root = 33, Unlinked = False\<rparr>,
      \<lparr>Uuid = uuid_String stream_A, Gen = 3, Root = 30, Unlinked = True\<rparr>,
      \<lparr>Uuid = uuid_String stream_A, Gen = 4, Root = 40, Unlinked = True\<rparr>,
      \<lparr>Uuid = uuid_String stream_A, Gen = 5, Root = 50, Unlinked = False\<rparr>,
      \<lparr>Uuid = uuid_String stream_A, Gen = 6, Root = 60, Unlinked = False\<rparr>]"
    by (simp add: sample_db_def stream_A_String stream_B_String le)
  have m: "\<lparr>Uuid = uuid_String stream_A, Gen = 4, Root = 40, Unlinked = False\<rparr>
             \<in> set (superblocks sample_db)"
    by (simp add: sample_db_def)
  from T m have c: "LoadSuperblock (snd (UnlinkGenerations sample_db stream_A 2 5)) stream_A 4 =
     Returned (Some \<lparr>uuid = stream_A, gen = 4, root = 40, unlinked = True\<rparr>)"
    by fastforce
  from h sample_db_keys a b c show ?thesis by blast
qed

lemma race_db_reached:
  "db (fst (run race_externals [0, 1, 0, 1, 0, 1, 0, 1, 0, 1]
              (sample_bs, [Start stream_A, Start stream_A]))) = race_db"
proof -
  have d: "db sample_bs = sample_db" by (simp add: sample_bs_def)
  have w: "wlocks sample_bs = Map.empty" by (simp add: sample_bs_def)
  show ?thesis
    by (simp add: new_locked_Mutex_def ObtainGeneration_body_sample d w sample_bs_def
          race_externals_def Commit_def sample_gen_def Insert_def sample_db_def Uuid_of_def
          Mutex_Unlock_def Let_def race_db_def)
qed

lemma race_db_keys: "\<not> distinct (map sblock_key (superblocks race_db))"
  by (simp add: race_db_def sample_db_def sblock_key_def)

lemma race_db_unlink:
  "UnlinkGenerations race_db stream_A 7 8 =
     (Returned (),
      race_db\<lparr>superblocks := superblocks sample_db @
        [\<lparr>Uuid = uuid_String stream_A, Gen = 7, Root = 60, Unlinked = True\<rparr>,
         \<lparr>Uuid = uuid_String stream_A, Gen = 7, Root = 60, Unlinked = False\<rparr>]\<rparr>)"
  by (simp add: UnlinkGenerations_def find_linked_range_def Upsert_def race_db_def
        sample_db_def stream_A_String stream_B_String word_le_nat_alt word_less_nat_alt)

text \<open>
  C6 as stated, for every store, fails where a stream has two records of one version:
  on the store above, \<open>UnlinkGenerations(A, 7, 8)\<close> upserts twice under the key
  (A, 7), both times into the first of the two records, and returns nil with the second
  record still not unlinked.
\<close>

theorem UnlinkGenerations_duplicate_counterexample:
  "\<not> (\<forall>mdb uid sgen egen.
        \<not> fault mdb \<and> sgen < egen \<longrightarrow>
        superblocks (snd (UnlinkGenerations mdb uid sgen egen)) =
          map (\<lambda>d. if Uuid d = uuid_String uid \<and> sgen \<le> Gen d \<and> Gen d < egen \<and>
                       \<not> Unlinked d
                    then d\<lparr>Unlinked := True\<rparr> else d) (superblocks mdb))"
proof
  assume a: "\<forall>mdb uid sgen egen.
        \<not> fault mdb \<and> sgen < egen \<longrightarrow>
        superblocks (snd (UnlinkGenerations mdb uid sgen egen)) =
          map (\<lambda>d. if Uuid d = uuid_String uid \<and> sgen \<le> Gen d \<and> Gen d < egen \<and>
                       \<not> Unlinked d
                    then d\<lparr>Unlinked := True\<rparr> else d) (superblocks mdb)"
  have h: "\<not> fault race_db \<and> (7::u64) < 8" by (simp add: race_db_def sample_db_def)
  from a h have "superblocks (snd (UnlinkGenerations race_db stream_A 7 8)) =
          map (\<lambda>d. if Uuid d = uuid_String stream_A \<and> 7 \<le> Gen d \<and> Gen d < 8 \<and>
                       \<not> Unlinked d
                    then d\<lparr>Unlinked := True\<rparr> else d) (superblocks race_db)"
    by blast
  then have "last (superblocks (snd (UnlinkGenerations race_db stream_A 7 8))) =
          last (map (\<lambda>d. if Uuid d = uuid_String stream_A \<and> 7 \<le> Gen d \<and> Gen d < 8 \<and>
                       \<not> Unlinked d
                    then d\<lparr>Unlinked := True\<rparr> else d) (superblocks race_db))"
    by simp
  then show False
    by (simp add: race_db_unlink) (simp add: race_db_def sample_db_def)
qed

subsection \<open>The address allocator\<close>

lemma unat_lt_u64: "unat (a :: u64) < 2 ^ 64"
  using unsigned_less [of a, where ?'a = nat] by simp

lemma unat_base_plus:
  fixes base :: u64
  assumes "j < 2 ^ 64 - unat base"
  shows "unat (base + of_nat j) = unat base + j"
proof -
  from assms have j: "j < 2 ^ 64" by simp
  then have "unat (of_nat j :: u64) = j" by (simp add: unat_of_nat)
  with assms show ?thesis by (simp add: unat_word_ariths)
qed

lemma base_plus_period:
  fixes base :: u64
  shows "base + of_nat (2 ^ 64 - unat base) = 0"
proof -
  have "base + of_nat (2 ^ 64 - unat base) = (of_nat (unat base + (2 ^ 64 - unat base)) :: u64)"
    by simp
  also have "unat base + (2 ^ 64 - unat base) = 2 ^ 64"
    using unat_lt_u64 [of base] by simp
  also have "(of_nat (2 ^ 64) :: u64) = 0" by simp
  finally show ?thesis .
qed

lemma next_relocation_addr_at:
  fixes base :: u64
  assumes "j < 2 ^ 64 - unat base"
  shows "next_relocation_addr base (base + of_nat j) =
           base + of_nat (Suc j mod (2 ^ 64 - unat base))"
proof (cases "Suc j < 2 ^ 64 - unat base")
  case True
  have e: "base + of_nat j + 1 = base + of_nat (Suc j)" by simp
  have m: "Suc j mod (2 ^ 64 - unat base) = Suc j" using True by simp
  from unat_base_plus [OF True] have n: "\<not> base + of_nat (Suc j) < base"
    by (simp add: word_less_nat_alt)
  show ?thesis unfolding m next_relocation_addr_def Let_def e using n by (simp only: if_False)
next
  case False
  with assms have p: "Suc j = 2 ^ 64 - unat base" by simp
  have m: "Suc j mod (2 ^ 64 - unat base) = 0" unfolding p by simp
  have "base + of_nat j + 1 = base + of_nat (Suc j)" by simp
  also have "\<dots> = 0" unfolding p by (rule base_plus_period)
  finally have z: "base + of_nat j + 1 = 0" .
  show ?thesis unfolding m next_relocation_addr_def Let_def z
    by (simp add: word_greater_zero_iff)
qed

lemma next_address_at:
  "next_relocation_addr base (address_at base k) = address_at base (Suc k)"
proof -
  let ?P = "2 ^ 64 - unat base"
  have P: "0 < ?P" using unat_lt_u64 [of base] by simp
  then have j: "k mod ?P < ?P" by simp
  have "Suc (k mod ?P) mod ?P = Suc k mod ?P" by (simp add: mod_Suc_eq)
  with next_relocation_addr_at [OF j] show ?thesis by (simp add: address_at_def)
qed

lemma address_at_small:
  assumes "k < 2 ^ 64 - unat base"
  shows "address_at base k = base + of_nat k" and "unat (address_at base k) = unat base + k"
  using assms unat_base_plus [OF assms] by (simp_all add: address_at_def)

lemma address_at_increasing:
  assumes "i < j" and "j < 2 ^ 64 - unat base"
  shows "address_at base i < address_at base j"
proof -
  from assms have "i < 2 ^ 64 - unat base" by simp
  from address_at_small(2) [OF this] address_at_small(2) [OF assms(2)] assms(1)
  show ?thesis by (simp add: word_less_nat_alt)
qed

lemma address_at_wrap: "address_at base (2 ^ 64 - unat base) = base"
  by (simp add: address_at_def)

lemma address_at_sorted:
  assumes "n \<le> 2 ^ 64 - unat base"
  shows "sorted_wrt (<) (map (address_at base) [0 ..< n])"
  using assms by (simp add: sorted_wrt_iff_nth_less address_at_increasing)

lemma address_at_distinct:
  assumes "n \<le> 2 ^ 64 - unat base"
  shows "distinct (map (address_at base) [0 ..< n])"
proof -
  have "\<And>i j. i < j \<Longrightarrow> j < n \<Longrightarrow> address_at base i \<noteq> address_at base j"
    using address_at_increasing [of _ _ base] assms by fastforce
  then show ?thesis
    by (simp add: distinct_conv_nth) (metis nat_neq_iff)
qed

lemma alloc_inv_init: "alloc_inv base 0 (alloc_init base)"
  by (simp add: alloc_inv_def alloc_init_def address_at_def)

lemma alloc_inv_producer:
  assumes "alloc_inv base c al" and "producer_step base al = Some al'"
  shows "alloc_inv base c al'"
proof -
  from assms(2) have al': "al' = \<lparr>chan = chan al @ [relocation_addr al],
      relocation_addr = next_relocation_addr base (relocation_addr al)\<rparr>"
    by (simp add: producer_step_def split: if_splits)
  let ?n = "length (chan al)"
  from assms(1) have c: "chan al = map (address_at base) [c ..< c + ?n]"
    and r: "relocation_addr al = address_at base (c + ?n)"
    by (simp_all add: alloc_inv_def)
  have "chan al @ [relocation_addr al] = map (address_at base) [c ..< c + Suc ?n]"
    using c r by simp
  moreover have "next_relocation_addr base (relocation_addr al) = address_at base (c + Suc ?n)"
    using r next_address_at [of base "c + ?n"] by simp
  ultimately show ?thesis by (simp add: alloc_inv_def al')
qed

lemma alloc_inv_receive:
  assumes "alloc_inv base c al" and "receive al = Some (x, al')"
  shows "x = address_at base c \<and> alloc_inv base (Suc c) al'"
proof -
  from assms(2) obtain xs where ch: "chan al = x # xs" and al': "al' = al\<lparr>chan := xs\<rparr>"
    by (auto simp: receive_def split: list.splits)
  from assms(1) ch have c: "x # xs = map (address_at base) [c ..< c + Suc (length xs)]"
    and r: "relocation_addr al = address_at base (c + Suc (length xs))"
    by (simp_all add: alloc_inv_def)
  have u: "[c ..< c + Suc (length xs)] = c # [Suc c ..< Suc c + length xs]"
    by (subst upt_rec) simp
  from c have "x # xs = map (address_at base) (c # [Suc c ..< Suc c + length xs])"
    unfolding u .
  then have "x = address_at base c" "xs = map (address_at base) [Suc c ..< Suc c + length xs]"
    by (simp_all del: upt_Suc)
  with r show ?thesis by (simp add: alloc_inv_def al')
qed

lemma alloc_inv_allocateBlock:
  assumes "alloc_inv base c al"
  shows "fst (allocateBlock base al) = address_at base c \<and>
         alloc_inv base (Suc c) (snd (allocateBlock base al))"
proof (cases "receive al")
  case None
  then have e: "chan al = []" by (simp add: receive_def split: list.splits)
  with assms have r: "relocation_addr al = address_at base c" by (simp add: alloc_inv_def)
  from None e r next_address_at [of base c] show ?thesis
    by (simp add: allocateBlock_def alloc_inv_def)
next
  case (Some p)
  then obtain x al' where p: "receive al = Some (x, al')" by (cases p) simp
  from alloc_inv_receive [OF assms p] p show ?thesis by (simp add: allocateBlock_def)
qed

lemma allocate_n_addresses:
  assumes "alloc_inv base c al"
  shows "fst (allocate_n base n al) = map (address_at base) [c ..< c + n] \<and>
         alloc_inv base (c + n) (snd (allocate_n base n al))"
  using assms
proof (induction n arbitrary: c al)
  case 0
  then show ?case by simp
next
  case (Suc n)
  obtain x al' where a: "allocateBlock base al = (x, al')" by (cases "allocateBlock base al")
  with alloc_inv_allocateBlock [OF Suc.prems] have x: "x = address_at base c"
    and i: "alloc_inv base (Suc c) al'" by simp_all
  obtain xs al'' where b: "allocate_n base n al' = (xs, al'')"
    by (cases "allocate_n base n al'")
  with Suc.IH [OF i] have xs: "xs = map (address_at base) [Suc c ..< Suc c + n]"
    and i': "alloc_inv base (Suc c + n) al''" by simp_all
  have u: "[c ..< c + Suc n] = c # [Suc c ..< Suc c + n]"
    by (subst upt_rec) simp
  have r: "allocate_n base (Suc n) al = (x # xs, al'')" by (simp add: a b)
  have "fst (allocate_n base (Suc n) al) = map (address_at base) [c ..< c + Suc n]"
    unfolding r u using x xs by simp
  moreover have "alloc_inv base (c + Suc n) (snd (allocate_n base (Suc n) al))"
    unfolding r using i' by simp
  ultimately show ?case by blast
qed

lemma alloc_run_addresses:
  assumes "alloc_inv base (length out) al" and "out = map (address_at base) [0 ..< length out]"
    and "alloc_run base sched (al, out) = (al', out')"
  shows "alloc_inv base (length out') al' \<and> out' = map (address_at base) [0 ..< length out']"
  using assms
proof (induction sched arbitrary: al out)
  case Nil
  then show ?case by simp
next
  case (Cons e sched)
  obtain al1 out1 where s: "alloc_event_step base e (al, out) = (al1, out1)"
    by (cases "alloc_event_step base e (al, out)")
  have "alloc_inv base (length out1) al1 \<and> out1 = map (address_at base) [0 ..< length out1]"
  proof (cases e)
    case Produce
    with s Cons.prems(1,2) show ?thesis
      by (auto split: option.splits dest: alloc_inv_producer)
  next
    case Consume
    show ?thesis
    proof (cases "receive al")
      case None
      with s Consume Cons.prems(1,2) show ?thesis by simp
    next
      case (Some p)
      then obtain x al2 where p: "receive al = Some (x, al2)" by (cases p) simp
      from alloc_inv_receive [OF Cons.prems(1) p] have x: "x = address_at base (length out)"
        and i: "alloc_inv base (Suc (length out)) al2" by simp_all
      from s Consume p have e: "al1 = al2" "out1 = out @ [x]" by simp_all
      from Cons.prems(2) x have "out @ [x] = map (address_at base) [0 ..< Suc (length out)]"
        by simp
      with e i show ?thesis by simp
    qed
  qed
  then have a: "alloc_inv base (length out1) al1"
    and b: "out1 = map (address_at base) [0 ..< length out1]" by simp_all
  from Cons.prems(3) s have "alloc_run base sched (al1, out1) = (al', out')" by simp
  from Cons.IH [OF a b this] show ?case .
qed

lemma NewBlockStore_alloc:
  assumes "NewBlockStore ext server cachesize mkdir_ok files = Returned (Inr bs)"
  shows "alloc bs = alloc_init (RELOCATION_BASE ext)"
  using assms by (auto simp: NewBlockStore_def split: option.splits if_splits)

lemma Allocate_first:
  assumes "alloc bs = alloc_init (RELOCATION_BASE ext)"
  shows "cIdentifier (fst (AllocateCoreblock ext bs g)) = RELOCATION_BASE ext \<and>
         vIdentifier (fst (AllocateVectorblock ext bs g)) = RELOCATION_BASE ext"
  using assms
  by (simp add: AllocateCoreblock_def AllocateVectorblock_def allocateBlock_def receive_def
        alloc_init_def zero_Coreblock_def zero_Vectorblock_def Let_def)

text \<open>
  C7: on a store that \<open>NewBlockStore\<close> has just returned, whatever the interleaving of
  the goroutine with the receivers, the addresses delivered are
  \<open>address_at RELOCATION_BASE 0, 1, 2, \<dots>\<close> in this order, and so are those that \<open>n\<close>
  calls of \<open>allocateBlock\<close> in a row return; the first block allocated gets the base.
  Up to position \<open>2^64 - RELOCATION_BASE\<close> these are \<open>RELOCATION_BASE + k\<close> without
  overflow, strictly increasing and distinct; at that position, after the greatest
  \<open>uint64\<close>, the sequence is back at the base.
\<close>

theorem allocator_sequence:
  assumes "NewBlockStore ext server cachesize mkdir_ok files = Returned (Inr bs)"
  shows "snd (alloc_run (RELOCATION_BASE ext) sched (alloc bs, [])) =
           map (address_at (RELOCATION_BASE ext))
             [0 ..< length (snd (alloc_run (RELOCATION_BASE ext) sched (alloc bs, [])))] \<and>
         fst (allocate_n (RELOCATION_BASE ext) n (alloc bs)) =
           map (address_at (RELOCATION_BASE ext)) [0 ..< n] \<and>
         cIdentifier (fst (AllocateCoreblock ext bs g)) = RELOCATION_BASE ext \<and>
         vIdentifier (fst (AllocateVectorblock ext bs g)) = RELOCATION_BASE ext \<and>
         (\<forall>k. k < 2 ^ 64 - unat (RELOCATION_BASE ext) \<longrightarrow>
            address_at (RELOCATION_BASE ext) k = RELOCATION_BASE ext + of_nat k \<and>
            unat (address_at (RELOCATION_BASE ext) k) = unat (RELOCATION_BASE ext) + k) \<and>
         (n \<le> 2 ^ 64 - unat (RELOCATION_BASE ext) \<longrightarrow>
            sorted_wrt (<) (fst (allocate_n (RELOCATION_BASE ext) n (alloc bs))) \<and>
            distinct (fst (allocate_n (RELOCATION_BASE ext) n (alloc bs)))) \<and>
         address_at (RELOCATION_BASE ext) (2 ^ 64 - unat (RELOCATION_BASE ext)) =
           RELOCATION_BASE ext"
proof -
  let ?B = "RELOCATION_BASE ext"
  from NewBlockStore_alloc [OF assms] have al: "alloc bs = alloc_init ?B" .
  have i: "alloc_inv ?B 0 (alloc bs)" unfolding al by (rule alloc_inv_init)
  obtain al' out' where r: "alloc_run ?B sched (alloc bs, []) = (al', out')"
    by (cases "alloc_run ?B sched (alloc bs, [])")
  have "alloc_inv ?B (length ([] :: u64 list)) (alloc bs)" using i by simp
  from alloc_run_addresses [OF this _ r]
  have a: "snd (alloc_run ?B sched (alloc bs, [])) =
           map (address_at ?B) [0 ..< length (snd (alloc_run ?B sched (alloc bs, [])))]"
    by (simp add: r)
  from allocate_n_addresses [OF i, of n]
  have b: "fst (allocate_n ?B n (alloc bs)) = map (address_at ?B) [0 ..< n]" by simp
  have c: "\<forall>k. k < 2 ^ 64 - unat ?B \<longrightarrow>
            address_at ?B k = ?B + of_nat k \<and> unat (address_at ?B k) = unat ?B + k"
    using address_at_small [of _ ?B] by blast
  have d: "n \<le> 2 ^ 64 - unat ?B \<longrightarrow>
            sorted_wrt (<) (fst (allocate_n ?B n (alloc bs))) \<and>
            distinct (fst (allocate_n ?B n (alloc bs)))"
    unfolding b using address_at_sorted [of n ?B] address_at_distinct [of n ?B] by blast
  from a b c d Allocate_first [OF al, of g] address_at_wrap [of ?B] show ?thesis by blast
qed

theorem allocator_sequence_witness:
  "(\<exists>bs. NewBlockStore sample_externals (Some sample_db) 2 True (\<lambda>a. []) = Returned (Inr bs) \<and>
      (3::nat) \<le> 2 ^ 64 - unat (RELOCATION_BASE sample_externals) \<and>
      fst (allocate_n (RELOCATION_BASE sample_externals) 3 (alloc bs)) = [1000, 1001, 1002] \<and>
      sorted_wrt (<) (fst (allocate_n (RELOCATION_BASE sample_externals) 3 (alloc bs))) \<and>
      snd (alloc_run (RELOCATION_BASE sample_externals)
             [Consume, Produce, Produce, Consume, Produce, Consume, Consume, Consume]
             (alloc bs, [])) = [1000, 1001, 1002]) \<and>
   (\<exists>bs. NewBlockStore (sample_externals\<lparr>RELOCATION_BASE := 18446744073709551613\<rparr>)
            (Some sample_db) 2 True (\<lambda>a. []) = Returned (Inr bs) \<and>
      fst (allocate_n 18446744073709551613 5 (alloc bs)) =
        [18446744073709551613, 18446744073709551614, 18446744073709551615,
         18446744073709551613, 18446744073709551614])"
proof -
  let ?sched = "[Consume, Produce, Produce, Consume, Produce, Consume, Consume, Consume]"
  from sample_NewBlockStore obtain bs1
    where n1: "NewBlockStore sample_externals (Some sample_db) 2 True (\<lambda>a. []) = Returned (Inr bs1)"
    by blast
  have B1: "RELOCATION_BASE sample_externals = 1000" by (simp add: sample_externals_def)
  have le: "(3::nat) \<le> 2 ^ 64 - unat (RELOCATION_BASE sample_externals)" by (simp add: B1)
  note T1 = allocator_sequence [OF n1, of ?sched 3]
  from T1 le have s1: "sorted_wrt (<) (fst (allocate_n (RELOCATION_BASE sample_externals) 3 (alloc bs1)))"
    by blast
  from T1 have "fst (allocate_n (RELOCATION_BASE sample_externals) 3 (alloc bs1)) =
      map (address_at (RELOCATION_BASE sample_externals)) [0 ..< 3]" by blast
  then have a1: "fst (allocate_n (RELOCATION_BASE sample_externals) 3 (alloc bs1)) = [1000, 1001, 1002]"
    by (simp add: B1 address_at_def upt_rec [of _ "numeral _"])
  have al1: "alloc bs1 = alloc_init 1000" using NewBlockStore_alloc [OF n1] B1 by simp
  have len: "length (snd (alloc_run 1000 ?sched (alloc_init 1000, []))) = 3"
    by (simp add: alloc_init_def producer_step_def receive_def next_relocation_addr_def)
  from T1 have "snd (alloc_run (RELOCATION_BASE sample_externals) ?sched (alloc bs1, [])) =
      map (address_at (RELOCATION_BASE sample_externals))
        [0 ..< length (snd (alloc_run (RELOCATION_BASE sample_externals) ?sched (alloc bs1, [])))]"
    by blast
  then have r1: "snd (alloc_run (RELOCATION_BASE sample_externals) ?sched (alloc bs1, [])) =
      [1000, 1001, 1002]"
    unfolding B1 al1 len by (simp add: address_at_def upt_rec [of _ "numeral _"])
  let ?hi = "sample_externals\<lparr>RELOCATION_BASE := 18446744073709551613\<rparr>"
  from high_NewBlockStore obtain bs2
    where n2: "NewBlockStore ?hi (Some sample_db) 2 True (\<lambda>a. []) = Returned (Inr bs2)"
    by blast
  have B2: "RELOCATION_BASE ?hi = 18446744073709551613" by simp
  from allocator_sequence [OF n2, of _ 5]
  have "fst (allocate_n (RELOCATION_BASE ?hi) 5 (alloc bs2)) =
      map (address_at (RELOCATION_BASE ?hi)) [0 ..< 5]" by blast
  then have a2: "fst (allocate_n 18446744073709551613 5 (alloc bs2)) =
        [18446744073709551613, 18446744073709551614, 18446744073709551615,
         18446744073709551613, 18446744073709551614]"
    unfolding B2 by (simp add: address_at_def upt_rec [of _ "numeral _"])
  from n1 le a1 s1 r1 n2 a2 show ?thesis by blast
qed

subsection \<open>A stream without records\<close>

lemma ObtainGeneration_body_fresh:
  assumes "\<not> fault (db bs)"
    and "\<forall>d \<in> set (superblocks (db bs)). Uuid d \<noteq> uuid_String uid"
  shows "ObtainGeneration_body bs uid =
           Returned \<lparr>Cur_SB = \<lparr>uuid = uid, gen = 0, root = 0, unlinked = False\<rparr>,
                     New_SB = \<lparr>uuid = uid, gen = 1, root = 0, unlinked = False\<rparr>,
                     cblocks = [], vblocks = [], unref_vaddrs = [], flushed = False\<rparr>"
proof -
  from assms(2) have "filter (\<lambda>d. Uuid d = uuid_String uid) (superblocks (db bs)) = []"
    by (simp add: filter_empty_conv)
  with assms(1) have "find_latest (db bs) (uuid_String uid) = Inl ErrNotFound"
    by (simp add: find_latest_def)
  then show ?thesis
    by (simp add: ObtainGeneration_body_def NewSuperblock_def Clone_def)
qed

lemma ObtainGeneration_lock_free:
  assumes "case wlocks bs (UUIDToMapKey uid) of None \<Rightarrow> True | Some mtx \<Rightarrow> \<not> mutex_locked bs mtx"
  shows "\<exists>bs2. ObtainGeneration bs uid = (ObtainGeneration_body bs2 uid, bs2) \<and> db bs2 = db bs"
  using assms
  by (auto simp: ObtainGeneration_def Let_def new_locked_Mutex_def Mutex_Lock_def
           split: option.splits)

lemma ObtainGeneration_Returned:
  assumes "ObtainGeneration bs uid = (Returned g, bs')"
  shows "ObtainGeneration_body bs' uid = Returned g \<and> db bs' = db bs"
  using assms
  by (auto simp: ObtainGeneration_def Let_def new_locked_Mutex_def Mutex_Lock_def
           split: option.splits if_splits)

text \<open>
  C8: on a reachable metadata store that has no record of the stream, every generation
  that \<open>ObtainGeneration\<close> returns has a current superblock of version 0 with root 0
  and a pending superblock of version 1; and it does return one when the stream's mutex
  is absent from the registry or not held.
\<close>

theorem ObtainGeneration_fresh_stream:
  assumes "\<not> fault (db bs)"
    and "\<forall>d \<in> set (superblocks (db bs)). Uuid d \<noteq> uuid_String uid"
  shows "(\<forall>g bs'. ObtainGeneration bs uid = (Returned g, bs') \<longrightarrow>
            Cur_SB g = \<lparr>uuid = uid, gen = 0, root = 0, unlinked = False\<rparr> \<and>
            New_SB g = \<lparr>uuid = uid, gen = 1, root = 0, unlinked = False\<rparr> \<and> \<not> flushed g) \<and>
         ((case wlocks bs (UUIDToMapKey uid) of None \<Rightarrow> True
           | Some mtx \<Rightarrow> \<not> mutex_locked bs mtx) \<longrightarrow>
            (\<exists>g bs'. ObtainGeneration bs uid = (Returned g, bs')))"
proof -
  have a: "\<forall>g bs'. ObtainGeneration bs uid = (Returned g, bs') \<longrightarrow>
            Cur_SB g = \<lparr>uuid = uid, gen = 0, root = 0, unlinked = False\<rparr> \<and>
            New_SB g = \<lparr>uuid = uid, gen = 1, root = 0, unlinked = False\<rparr> \<and> \<not> flushed g"
  proof (intro allI impI)
    fix g bs' assume o: "ObtainGeneration bs uid = (Returned g, bs')"
    from ObtainGeneration_Returned [OF o] have b: "ObtainGeneration_body bs' uid = Returned g"
      and d: "db bs' = db bs" by simp_all
    from assms d have "\<not> fault (db bs')"
      "\<forall>d \<in> set (superblocks (db bs')). Uuid d \<noteq> uuid_String uid"
      by simp_all
    from ObtainGeneration_body_fresh [OF this] b
    show "Cur_SB g = \<lparr>uuid = uid, gen = 0, root = 0, unlinked = False\<rparr> \<and>
          New_SB g = \<lparr>uuid = uid, gen = 1, root = 0, unlinked = False\<rparr> \<and> \<not> flushed g"
      by auto
  qed
  have b: "(case wlocks bs (UUIDToMapKey uid) of None \<Rightarrow> True
           | Some mtx \<Rightarrow> \<not> mutex_locked bs mtx) \<longrightarrow>
            (\<exists>g bs'. ObtainGeneration bs uid = (Returned g, bs'))"
  proof
    assume "case wlocks bs (UUIDToMapKey uid) of None \<Rightarrow> True
            | Some mtx \<Rightarrow> \<not> mutex_locked bs mtx"
    from ObtainGeneration_lock_free [OF this] obtain bs2
      where o: "ObtainGeneration bs uid = (ObtainGeneration_body bs2 uid, bs2)"
        and d: "db bs2 = db bs"
      by blast
    from assms d have "\<not> fault (db bs2)"
      "\<forall>d \<in> set (superblocks (db bs2)). Uuid d \<noteq> uuid_String uid"
      by simp_all
    from ObtainGeneration_body_fresh [OF this] o
    show "\<exists>g bs'. ObtainGeneration bs uid = (Returned g, bs')" by simp
  qed
  from a b show ?thesis by blast
qed

theorem ObtainGeneration_fresh_stream_witness:
  "\<not> fault (db sample_bs) \<and>
   \<not> (\<exists>d \<in> set (superblocks (db sample_bs)). Uuid d = uuid_String stream_C) \<and>
   wlocks sample_bs (UUIDToMapKey stream_C) = None \<and>
   (\<exists>g bs'. ObtainGeneration sample_bs stream_C = (Returned g, bs') \<and>
      Cur_SB g = \<lparr>uuid = stream_C, gen = 0, root = 0, unlinked = False\<rparr> \<and>
      New_SB g = \<lparr>uuid = stream_C, gen = 1, root = 0, unlinked = False\<rparr> \<and> \<not> flushed g)"
proof -
  have h1: "\<not> fault (db sample_bs)" by (simp add: sample_bs_def sample_db_def)
  have h2: "\<forall>d \<in> set (superblocks (db sample_bs)). Uuid d \<noteq> uuid_String stream_C"
    by (simp add: sample_bs_def sample_db_def stream_A_String stream_B_String stream_C_String)
  have h3: "wlocks sample_bs (UUIDToMapKey stream_C) = None" by (simp add: sample_bs_def)
  from ObtainGeneration_fresh_stream [OF h1 h2] h3
  have "\<exists>g bs'. ObtainGeneration sample_bs stream_C = (Returned g, bs') \<and>
      Cur_SB g = \<lparr>uuid = stream_C, gen = 0, root = 0, unlinked = False\<rparr> \<and>
      New_SB g = \<lparr>uuid = stream_C, gen = 1, root = 0, unlinked = False\<rparr> \<and> \<not> flushed g"
    by (metis option.simps(4))
  with h1 h2 h3 show ?thesis by blast
qed

subsection \<open>The root address at commit\<close>

text \<open>
  C9: \<open>Commit\<close> on a generation not yet flushed, where \<open>LinkAndStore\<close> gives
  \<open>address_map\<close>. If the map has no entry for the pending root, \<open>Commit\<close> panics
  with "Could not obtain root address", the metadata store is as before, so no
  superblock record has been written, and the generation is not flushed. If the map sends
  the pending root to \<open>r\<close>, the pending root is \<open>r\<close> when \<open>Commit\<close> ends, and the
  record it inserts has \<open>r\<close> as its root; only an unreachable store keeps the record
  from being written, and then \<open>Commit\<close> panics.
\<close>

theorem Commit_root_resolution:
  assumes "\<not> flushed g"
    and "LinkAndStore ext (store bs) (vblocks g) (cblocks g) = (address_map, st)"
  shows "(address_map (root (New_SB g)) = None \<longrightarrow>
            (\<exists>bs' g'. Commit ext bs g = (Panicked ''Could not obtain root address'', bs', g') \<and>
               db bs' = db bs \<and> \<not> flushed g')) \<and>
         (\<forall>r. address_map (root (New_SB g)) = Some r \<longrightarrow>
            (\<exists>res bs' g'. Commit ext bs g = (res, bs', g') \<and> root (New_SB g') = r \<and>
               (if fault (db bs)
                then res = Panicked ''mgo error'' \<and> superblocks (db bs') = superblocks (db bs)
                else superblocks (db bs') =
                       superblocks (db bs) @
                         [\<lparr>Uuid = uuid_String (uuid (New_SB g)), Gen = gen (New_SB g), Root = r,
                           Unlinked = False\<rparr>])))"
proof (intro conjI impI allI)
  assume "address_map (root (New_SB g)) = None"
  from Commit_root_missing [OF assms this] assms(1)
  show "\<exists>bs' g'. Commit ext bs g = (Panicked ''Could not obtain root address'', bs', g') \<and>
               db bs' = db bs \<and> \<not> flushed g'"
    by simp
next
  fix r assume "address_map (root (New_SB g)) = Some r"
  from Commit_root_present [OF assms this]
  show "\<exists>res bs' g'. Commit ext bs g = (res, bs', g') \<and> root (New_SB g') = r \<and>
               (if fault (db bs)
                then res = Panicked ''mgo error'' \<and> superblocks (db bs') = superblocks (db bs)
                else superblocks (db bs') =
                       superblocks (db bs) @
                         [\<lparr>Uuid = uuid_String (uuid (New_SB g)), Gen = gen (New_SB g), Root = r,
                           Unlinked = False\<rparr>])" .
qed

theorem Commit_root_resolution_witness:
  "\<not> flushed (snd sample_work) \<and>
   [1000 \<mapsto> 1001] (root (New_SB (snd sample_work))) = Some (1001::u64) \<and>
   (\<exists>res bs' g'. Commit sample_externals (fst sample_work) (snd sample_work) = (res, bs', g') \<and>
       root (New_SB g') = 1001 \<and>
       superblocks (db bs') =
         superblocks sample_db @
           [\<lparr>Uuid = uuid_String stream_A, Gen = 7, Root = 1001, Unlinked = False\<rparr>]) \<and>
   \<not> flushed sample_gen \<and>
   (Map.empty :: u64 \<rightharpoonup> u64) (root (New_SB sample_gen)) = None \<and>
   (\<exists>bs' g'. Commit sample_externals (fst sample_work) sample_gen
                = (Panicked ''Could not obtain root address'', bs', g') \<and>
       db bs' = sample_db \<and> \<not> flushed g')"
proof -
  have f1: "\<not> flushed (snd sample_work)" by (simp add: sample_work_gen)
  have r1: "[1000 \<mapsto> 1001] (root (New_SB (snd sample_work))) = Some (1001::u64)"
    by (simp add: sample_work_gen)
  have nf: "\<not> fault (db (fst sample_work))" by (simp add: sample_work_db sample_db_def)
  have u: "uuid (New_SB (snd sample_work)) = stream_A" "gen (New_SB (snd sample_work)) = 7"
    by (simp_all add: sample_work_gen)
  from Commit_root_resolution [OF f1 sample_LinkAndStore] r1 nf u
  have a: "\<exists>res bs' g'. Commit sample_externals (fst sample_work) (snd sample_work) = (res, bs', g') \<and>
       root (New_SB g') = 1001 \<and>
       superblocks (db bs') =
         superblocks sample_db @
           [\<lparr>Uuid = uuid_String stream_A, Gen = 7, Root = 1001, Unlinked = False\<rparr>]"
    by (simp add: sample_work_db)
  have f2: "\<not> flushed sample_gen" by (simp add: sample_gen_def)
  have r2: "(Map.empty :: u64 \<rightharpoonup> u64) (root (New_SB sample_gen)) = None" by simp
  from Commit_root_resolution [OF f2 sample_LinkAndStore_empty] r2
  have b: "\<exists>bs' g'. Commit sample_externals (fst sample_work) sample_gen
                = (Panicked ''Could not obtain root address'', bs', g') \<and>
       db bs' = sample_db \<and> \<not> flushed g'"
    by (simp add: sample_work_db)
  from f1 r1 a f2 r2 b show ?thesis by blast
qed

subsection \<open>LoadSuperblock\<close>

lemma LoadSuperblock_exact_None:
  assumes "\<not> fault mdb" "generation \<noteq> LatestGeneration"
  shows "LoadSuperblock mdb uid generation = Returned None \<longleftrightarrow>
         \<not> (\<exists>d \<in> set (superblocks mdb). Uuid d = uuid_String uid \<and> Gen d = generation)"
  using assms
  by (auto simp: LoadSuperblock_def find_exact_def find_None_iff split: option.splits
           dest: find_Some_holds)

lemma LoadSuperblock_exact_Some:
  assumes "\<not> fault mdb" "generation \<noteq> LatestGeneration"
    and "LoadSuperblock mdb uid generation = Returned (Some sb)"
  shows "uuid sb = uid \<and> gen sb = generation \<and>
         (\<exists>d \<in> set (superblocks mdb). Uuid d = uuid_String uid \<and> Gen d = generation \<and>
              root sb = Root d \<and> unlinked sb = Unlinked d)"
proof -
  from assms obtain d where f: "find (\<lambda>d. Uuid d = uuid_String uid \<and> Gen d = generation) (superblocks mdb) = Some d"
    and sb: "sb = \<lparr>uuid = uid, gen = Gen d, root = Root d, unlinked = Unlinked d\<rparr>"
    by (auto simp: LoadSuperblock_def find_exact_def split: option.splits)
  from f have "d \<in> set (superblocks mdb)" "Uuid d = uuid_String uid" "Gen d = generation"
    by (auto dest: find_Some_holds)
  with sb show ?thesis by auto
qed

lemma LoadSuperblock_returns:
  assumes "\<not> fault mdb"
  shows "\<exists>r. LoadSuperblock mdb uid generation = Returned r"
  using assms
  by (auto simp: LoadSuperblock_def find_exact_def find_latest_def split: option.splits)

lemma LoadSuperblock_latest_None:
  assumes "\<not> fault mdb"
  shows "LoadSuperblock mdb uid LatestGeneration = Returned None \<longleftrightarrow>
         \<not> (\<exists>d \<in> set (superblocks mdb). Uuid d = uuid_String uid)"
proof -
  let ?ds = "filter (\<lambda>d. Uuid d = uuid_String uid) (superblocks mdb)"
  have "LoadSuperblock mdb uid LatestGeneration = Returned None \<longleftrightarrow> ?ds = []"
    using assms
    by (cases "sort_gen_desc_One ?ds")
       (auto simp: LoadSuperblock_def find_latest_def sort_gen_desc_One_None)
  then show ?thesis by (simp add: filter_empty_conv)
qed

lemma LoadSuperblock_latest_Some:
  assumes "\<not> fault mdb"
    and "LoadSuperblock mdb uid LatestGeneration = Returned (Some sb)"
  shows "uuid sb = uid \<and>
         (\<exists>d \<in> set (superblocks mdb). Uuid d = uuid_String uid \<and> gen sb = Gen d \<and>
              root sb = Root d \<and> unlinked sb = Unlinked d) \<and>
         (\<forall>e \<in> set (superblocks mdb). Uuid e = uuid_String uid \<longrightarrow> Gen e \<le> gen sb)"
proof -
  let ?ds = "filter (\<lambda>d. Uuid d = uuid_String uid) (superblocks mdb)"
  from assms obtain d where f: "sort_gen_desc_One ?ds = Some d"
    and sb: "sb = \<lparr>uuid = uid, gen = Gen d, root = Root d, unlinked = Unlinked d\<rparr>"
    by (auto simp: LoadSuperblock_def find_latest_def split: option.splits)
  from sort_gen_desc_One_mem [OF f] have d: "d \<in> set (superblocks mdb)" "Uuid d = uuid_String uid"
    by auto
  have "\<And>e. e \<in> set (superblocks mdb) \<Longrightarrow> Uuid e = uuid_String uid \<Longrightarrow> Gen e \<le> Gen d"
    using sort_gen_desc_One_max [OF f] by simp
  with d sb show ?thesis by auto
qed

lemma LoadSuperblock_sample_latest:
  "LoadSuperblock sample_db stream_A LatestGeneration =
     Returned (Some \<lparr>uuid = stream_A, gen = 6, root = 60, unlinked = False\<rparr>)"
  by (simp add: LoadSuperblock_def find_latest_def sample_db_def stream_A_String stream_B_String)

lemma LoadSuperblock_sample_exact:
  "LoadSuperblock sample_db stream_A 3 =
     Returned (Some \<lparr>uuid = stream_A, gen = 3, root = 30, unlinked = True\<rparr>)"
  by (simp add: LoadSuperblock_def find_exact_def sample_db_def stream_A_String stream_B_String
        LatestGeneration_max)

text \<open>
  C10: \<open>LatestGeneration\<close> is \<open>2^64 - 1\<close>. With a reachable store, \<open>LoadSuperblock\<close>
  called with that value runs the latest-version query: it answers nil exactly when the
  stream has no record at all and otherwise a record of the stream whose version no
  record of the stream exceeds, whatever its version is; so the value never selects a
  record by its exact version. For every other value it answers nil exactly when no
  record has that stream and that version, and otherwise a record of exactly that stream
  and version.
\<close>

theorem LoadSuperblock_sentinel:
  assumes "\<not> fault mdb"
  shows "unat LatestGeneration = 2 ^ 64 - 1 \<and>
         (\<exists>r. LoadSuperblock mdb uid generation = Returned r) \<and>
         (LoadSuperblock mdb uid LatestGeneration = Returned None \<longleftrightarrow>
            \<not> (\<exists>d \<in> set (superblocks mdb). Uuid d = uuid_String uid)) \<and>
         (\<forall>sb. LoadSuperblock mdb uid LatestGeneration = Returned (Some sb) \<longrightarrow>
            uuid sb = uid \<and>
            (\<exists>d \<in> set (superblocks mdb). Uuid d = uuid_String uid \<and> gen sb = Gen d \<and>
                root sb = Root d \<and> unlinked sb = Unlinked d) \<and>
            (\<forall>e \<in> set (superblocks mdb). Uuid e = uuid_String uid \<longrightarrow> Gen e \<le> gen sb)) \<and>
         (generation \<noteq> LatestGeneration \<longrightarrow>
            (LoadSuperblock mdb uid generation = Returned None \<longleftrightarrow>
               \<not> (\<exists>d \<in> set (superblocks mdb). Uuid d = uuid_String uid \<and> Gen d = generation)) \<and>
            (\<forall>sb. LoadSuperblock mdb uid generation = Returned (Some sb) \<longrightarrow>
               uuid sb = uid \<and> gen sb = generation \<and>
               (\<exists>d \<in> set (superblocks mdb). Uuid d = uuid_String uid \<and> Gen d = generation \<and>
                   root sb = Root d \<and> unlinked sb = Unlinked d)))"
  using assms unat_LatestGeneration LoadSuperblock_returns [OF assms]
    LoadSuperblock_latest_None [OF assms] LoadSuperblock_latest_Some [OF assms]
    LoadSuperblock_exact_None [OF assms] LoadSuperblock_exact_Some [OF assms]
  by blast

theorem LoadSuperblock_sentinel_witness:
  "\<not> fault sample_db \<and> (3::u64) \<noteq> LatestGeneration \<and>
   LoadSuperblock sample_db stream_A 3 =
     Returned (Some \<lparr>uuid = stream_A, gen = 3, root = 30, unlinked = True\<rparr>) \<and>
   (\<exists>d \<in> set (superblocks sample_db). Uuid d = uuid_String stream_A \<and> Gen d = 3 \<and>
       Root d = 30 \<and> Unlinked d) \<and>
   LoadSuperblock sample_db stream_A LatestGeneration =
     Returned (Some \<lparr>uuid = stream_A, gen = 6, root = 60, unlinked = False\<rparr>) \<and>
   \<not> (\<exists>e \<in> set (superblocks sample_db). Uuid e = uuid_String stream_A \<and> 6 < Gen e)"
proof -
  have h: "\<not> fault sample_db" by (simp add: sample_db_def)
  have n: "(3::u64) \<noteq> LatestGeneration" by (simp add: LatestGeneration_max)
  note T = LoadSuperblock_sentinel [OF h, of stream_A 3]
  from T n LoadSuperblock_sample_exact
  have a: "\<exists>d \<in> set (superblocks sample_db). Uuid d = uuid_String stream_A \<and> Gen d = 3 \<and>
       Root d = 30 \<and> Unlinked d"
    by fastforce
  from T LoadSuperblock_sample_latest
  have b: "\<not> (\<exists>e \<in> set (superblocks sample_db). Uuid e = uuid_String stream_A \<and> 6 < Gen e)"
    by fastforce
  from h n a b LoadSuperblock_sample_exact LoadSuperblock_sample_latest show ?thesis
    by blast
qed

end
